theory Spec2Isabelle
  imports Main "HOL-Library.Word"
begin

section \<open>Data of the state package (src/state/state.go)\<close>

text \<open>
  Byte slices are lists of bytes. A \<open>common.Hash\<close> is an array of 32 bytes and a
  \<open>common.Address\<close> an array of 20 bytes; both are kept as byte lists. Go pointers to
  \<open>ethState.StateDB\<close> objects are references into an explicit heap, because
  \<open>Call\<close> works on a copy of such an object and the claims about it depend on which
  object is read and which is written.
\<close>

type_synonym byte = "8 word"
type_synonym bytes = "byte list"
type_synonym hash = bytes
type_synonym address = bytes
type_synonym ref = nat

text \<open>Error values returned by the libraries and by the durable store.\<close>

datatype error =
    ErrNotFound
  | ErrIO
  | ErrDecode
  | ErrMissingNode
  | ErrExecution
  | ErrAdmission
  | ErrResource

text \<open>
  \<open>ethdb.Database\<close> is seen through \<open>Get\<close> only: the durable store is the answer of
  \<open>Get\<close> at every key, either the stored bytes or the error \<open>Get\<close> returns (the key
  is not there, or the read failed).
\<close>

type_synonym database = "bytes \<Rightarrow> error + bytes"

text \<open>The package-level variables of state.go.\<close>

definition bytes_of_string :: "string \<Rightarrow> bytes" where
  "bytes_of_string s = map (\<lambda>c. of_nat (of_char c)) s"

definition gasLimit :: int where
  "gasLimit = 1000000000000000000"

definition receiptsPrefix :: bytes where
  "receiptsPrefix = bytes_of_string ''receipts-''"

definition rootKey :: bytes where
  "rootKey = bytes_of_string ''root''"

text \<open>\<open>common.Hash{}\<close>, the zero value of the array type.\<close>

definition zero_hash :: hash where
  "zero_hash = replicate 32 0"

text \<open>
  \<open>vm.Context\<close> as \<open>Call\<close> fills it: \<open>Origin\<close> and \<open>GasPrice\<close> come from the message,
  the function fields are fixed (\<open>core.CanTransfer\<close>, \<open>core.Transfer\<close>, a \<open>GetHash\<close>
  that returns the zero hash) and every other field keeps its zero value.
\<close>

record Context =
  Origin :: address
  GasPrice :: int

text \<open>\<open>bcommon.Account\<close>, with the fields \<open>CreateAccounts\<close> reads. A Go map is given
  as the list of its entries in the order the \<open>range\<close> loop visits them.\<close>

record Account =
  Balance :: string
  Code :: string
  Storage :: "(string \<times> string) list"

type_synonym AccountMap = "(string \<times> Account) list"

text \<open>
  \<open>WriteAheadState\<close> and \<open>TxPool\<close> are declared in files of the package that are not
  part of the sources at hand; state.go reads their \<open>ethState\<close> field and calls their
  methods. Each is a record of that field and of the rest of the struct, left abstract.
  The three states are independently owned handles: a method of the WAS or of the pool
  works on the struct's own \<open>StateDB\<close> and, for the WAS, on the durable store.
\<close>

record 'w WriteAheadState =
  was_ethState :: ref
  was_rest :: 'w

record 'p TxPool =
  pool_ethState :: ref
  pool_rest :: 'p

text \<open>
  The \<open>State\<close> struct. The \<open>db\<close> field is the one durable store of the world below;
  \<open>signer\<close>, \<open>chainConfig\<close> and \<open>vmConfig\<close> are constants fixed by \<open>NewState\<close> and the
  logger is left out. The three pointer fields are never nil in a \<open>State\<close> that
  \<open>NewState\<close> returned, and the record holds such a \<open>State\<close>.
\<close>

record ('w, 'p) State =
  ethState :: ref
  was :: "'w WriteAheadState"
  txPool :: "'p TxPool"

section \<open>The collaborators\<close>

text \<open>
  The calls state.go makes on the collaborators, in call order, so that claims about
  the order of the steps can be stated.
\<close>

datatype ('tx, 'msg) call =
    SdbNew ref hash
  | SdbReset ref hash
  | SdbCopy ref ref
  | SdbAddBalance ref address int
  | SdbSetCode ref address bytes
  | SdbSetState ref address hash hash
  | ApplyMsg ref Context 'msg int
  | WasNew ref hash
  | WasCommit
  | WasReset hash
  | WasApplyTransaction 'tx int hash
  | PoolNew ref
  | PoolReset hash
  | PoolCheckTx 'tx

text \<open>
  Everything outside state.go is a parameter: go-ethereum's \<open>StateDB\<close>, \<open>core\<close>,
  \<open>rlp\<close> and \<open>common\<close>, the operating system, and the package's own
  \<open>WriteAheadState\<close> and \<open>TxPool\<close>. \<open>'sdb\<close> is the content of a \<open>StateDB\<close> object
  (the accounts it shows), \<open>'tx\<close>, \<open>'rc\<close> and \<open>'msg\<close> are \<open>ethTypes.Transaction\<close>,
  \<open>ethTypes.Receipt\<close> and \<open>ethTypes.Message\<close>.

  A method of an object takes the content of the object and returns the new content
  together with its Go results; a method of \<open>WriteAheadState\<close> or \<open>TxPool\<close> takes and
  returns the rest of the struct and the content of the struct's own \<open>StateDB\<close>.
  \<open>was_Commit\<close> also returns the durable store it has written.
\<close>

record ('sdb, 'w, 'p, 'tx, 'rc, 'msg) deps =
  getFdLimit :: "error + int"
  NewLDBDatabase :: "string \<Rightarrow> int \<Rightarrow> int \<Rightarrow> error + database"
  sdb_New :: "hash \<Rightarrow> database \<Rightarrow> error + 'sdb"
  sdb_Reset :: "'sdb \<Rightarrow> hash \<Rightarrow> database \<Rightarrow> error option \<times> 'sdb"
  sdb_GetBalance :: "'sdb \<Rightarrow> address \<Rightarrow> int"
  sdb_GetNonce :: "'sdb \<Rightarrow> address \<Rightarrow> 64 word"
  sdb_AddBalance :: "'sdb \<Rightarrow> address \<Rightarrow> int \<Rightarrow> 'sdb"
  sdb_SetCode :: "'sdb \<Rightarrow> address \<Rightarrow> bytes \<Rightarrow> 'sdb"
  sdb_SetState :: "'sdb \<Rightarrow> address \<Rightarrow> hash \<Rightarrow> hash \<Rightarrow> 'sdb"
  msg_From :: "'msg \<Rightarrow> address"
  msg_GasPrice :: "'msg \<Rightarrow> int"
  core_ApplyMessage :: "Context \<Rightarrow> 'msg \<Rightarrow> int \<Rightarrow> 'sdb \<Rightarrow> (bytes \<times> error option) \<times> 'sdb"
  rlp_Decode_tx :: "bytes \<Rightarrow> error + 'tx"
  rlp_DecodeBytes_tx :: "bytes \<Rightarrow> error + 'tx"
  rlp_DecodeBytes_receipt :: "bytes \<Rightarrow> error + 'rc"
  BytesToHash :: "bytes \<Rightarrow> hash"
  HexToAddress :: "string \<Rightarrow> address"
  HexToHash :: "string \<Rightarrow> hash"
  Hex2Bytes :: "string \<Rightarrow> bytes"
  ParseBig256 :: "string \<Rightarrow> int option"
  was_New :: "database \<Rightarrow> hash \<Rightarrow> error + 'w \<times> 'sdb"
  was_Commit :: "'w \<Rightarrow> 'sdb \<Rightarrow> database \<Rightarrow> (hash \<times> error option) \<times> 'w \<times> 'sdb \<times> database"
  was_Reset :: "'w \<Rightarrow> 'sdb \<Rightarrow> hash \<Rightarrow> database \<Rightarrow> error option \<times> 'w \<times> 'sdb"
  was_ApplyTransaction :: "'w \<Rightarrow> 'sdb \<Rightarrow> 'tx \<Rightarrow> int \<Rightarrow> hash \<Rightarrow> error option \<times> 'w \<times> 'sdb"
  pool_New :: "'p"
  pool_Reset :: "'p \<Rightarrow> 'sdb \<Rightarrow> hash \<Rightarrow> database \<Rightarrow> error option \<times> 'p \<times> 'sdb"
  pool_CheckTx :: "'p \<Rightarrow> 'sdb \<Rightarrow> 'tx \<Rightarrow> error option \<times> 'p \<times> 'sdb"

section \<open>The world: heap of StateDB objects, durable store, calls made\<close>

record ('sdb, 'tx, 'msg) world =
  heap :: "ref \<Rightarrow> 'sdb"
  nextref :: ref
  dbase :: database
  calls :: "('tx, 'msg) call list"

text \<open>Allocation of a new object: the next unused reference.\<close>

definition alloc :: "'sdb \<Rightarrow> ('sdb, 'tx, 'msg) world \<Rightarrow> ref \<times> ('sdb, 'tx, 'msg) world" where
  "alloc v w = (nextref w, w\<lparr>heap := (heap w)(nextref w := v), nextref := Suc (nextref w)\<rparr>)"

definition called :: "('tx, 'msg) call \<Rightarrow> ('sdb, 'tx, 'msg) world \<Rightarrow> ('sdb, 'tx, 'msg) world" where
  "called c w = w\<lparr>calls := calls w @ [c]\<rparr>"

subsection \<open>Methods of StateDB\<close>

text \<open>\<open>ethState.New(root, ethState.NewDatabase(db))\<close>\<close>

definition StateDB_New ::
  "('sdb, 'w, 'p, 'tx, 'rc, 'msg) deps \<Rightarrow> hash \<Rightarrow> ('sdb, 'tx, 'msg) world
     \<Rightarrow> (error + ref) \<times> ('sdb, 'tx, 'msg) world" where
  "StateDB_New d root w =
     (case sdb_New d root (dbase w) of
        Inl err \<Rightarrow> (Inl err, called (SdbNew (nextref w) root) w)
      | Inr v \<Rightarrow> (case alloc v w of (r, w1) \<Rightarrow> (Inr r, called (SdbNew r root) w1)))"

text \<open>\<open>(*StateDB).Reset(root)\<close>\<close>

definition StateDB_Reset ::
  "('sdb, 'w, 'p, 'tx, 'rc, 'msg) deps \<Rightarrow> ref \<Rightarrow> hash \<Rightarrow> ('sdb, 'tx, 'msg) world
     \<Rightarrow> error option \<times> ('sdb, 'tx, 'msg) world" where
  "StateDB_Reset d r root w =
     (case sdb_Reset d (heap w r) root (dbase w) of
        (err, v) \<Rightarrow> (err, called (SdbReset r root) (w\<lparr>heap := (heap w)(r := v)\<rparr>)))"

text \<open>\<open>(*StateDB).Copy()\<close>: a new object with the content of the old one.\<close>

definition StateDB_Copy ::
  "ref \<Rightarrow> ('sdb, 'tx, 'msg) world \<Rightarrow> ref \<times> ('sdb, 'tx, 'msg) world" where
  "StateDB_Copy r w = (case alloc (heap w r) w of (c, w1) \<Rightarrow> (c, called (SdbCopy r c) w1))"

definition StateDB_AddBalance ::
  "('sdb, 'w, 'p, 'tx, 'rc, 'msg) deps \<Rightarrow> ref \<Rightarrow> address \<Rightarrow> int \<Rightarrow> ('sdb, 'tx, 'msg) world
     \<Rightarrow> ('sdb, 'tx, 'msg) world" where
  "StateDB_AddBalance d r a v w =
     called (SdbAddBalance r a v) (w\<lparr>heap := (heap w)(r := sdb_AddBalance d (heap w r) a v)\<rparr>)"

definition StateDB_SetCode ::
  "('sdb, 'w, 'p, 'tx, 'rc, 'msg) deps \<Rightarrow> ref \<Rightarrow> address \<Rightarrow> bytes \<Rightarrow> ('sdb, 'tx, 'msg) world
     \<Rightarrow> ('sdb, 'tx, 'msg) world" where
  "StateDB_SetCode d r a c w =
     called (SdbSetCode r a c) (w\<lparr>heap := (heap w)(r := sdb_SetCode d (heap w r) a c)\<rparr>)"

definition StateDB_SetState ::
  "('sdb, 'w, 'p, 'tx, 'rc, 'msg) deps \<Rightarrow> ref \<Rightarrow> address \<Rightarrow> hash \<Rightarrow> hash
     \<Rightarrow> ('sdb, 'tx, 'msg) world \<Rightarrow> ('sdb, 'tx, 'msg) world" where
  "StateDB_SetState d r a k v w =
     called (SdbSetState r a k v) (w\<lparr>heap := (heap w)(r := sdb_SetState d (heap w r) a k v)\<rparr>)"

text \<open>
  \<open>core.ApplyMessage(vm.NewEVM(context, statedb, ...), msg, gaspool)\<close>: it works on the
  \<open>StateDB\<close> object the EVM was built on.
\<close>

definition ApplyMessage ::
  "('sdb, 'w, 'p, 'tx, 'rc, 'msg) deps \<Rightarrow> Context \<Rightarrow> ref \<Rightarrow> 'msg \<Rightarrow> int
     \<Rightarrow> ('sdb, 'tx, 'msg) world \<Rightarrow> (bytes \<times> error option) \<times> ('sdb, 'tx, 'msg) world" where
  "ApplyMessage d ctx r m gas w =
     (case core_ApplyMessage d ctx m gas (heap w r) of
        (res, v) \<Rightarrow> (res, called (ApplyMsg r ctx m gas) (w\<lparr>heap := (heap w)(r := v)\<rparr>)))"

subsection \<open>WriteAheadState and TxPool\<close>

text \<open>\<open>NewWriteAheadState(db, root, ...)\<close>: a new instance with a \<open>StateDB\<close> of its own.\<close>

definition NewWriteAheadState ::
  "('sdb, 'w, 'p, 'tx, 'rc, 'msg) deps \<Rightarrow> hash \<Rightarrow> ('sdb, 'tx, 'msg) world
     \<Rightarrow> (error + 'w WriteAheadState) \<times> ('sdb, 'tx, 'msg) world" where
  "NewWriteAheadState d root w =
     (case was_New d (dbase w) root of
        Inl err \<Rightarrow> (Inl err, called (WasNew (nextref w) root) w)
      | Inr (rest, v) \<Rightarrow>
          (case alloc v w of
             (r, w1) \<Rightarrow> (Inr \<lparr>was_ethState = r, was_rest = rest\<rparr>, called (WasNew r root) w1)))"

definition WAS_Commit ::
  "('sdb, 'w, 'p, 'tx, 'rc, 'msg) deps \<Rightarrow> 'w WriteAheadState \<Rightarrow> ('sdb, 'tx, 'msg) world
     \<Rightarrow> (hash \<times> error option) \<times> 'w WriteAheadState \<times> ('sdb, 'tx, 'msg) world" where
  "WAS_Commit d wa w =
     (case was_Commit d (was_rest wa) (heap w (was_ethState wa)) (dbase w) of
        (res, rest, v, db) \<Rightarrow>
          (res, wa\<lparr>was_rest := rest\<rparr>,
           called WasCommit (w\<lparr>heap := (heap w)(was_ethState wa := v), dbase := db\<rparr>)))"

definition WAS_Reset ::
  "('sdb, 'w, 'p, 'tx, 'rc, 'msg) deps \<Rightarrow> 'w WriteAheadState \<Rightarrow> hash \<Rightarrow> ('sdb, 'tx, 'msg) world
     \<Rightarrow> error option \<times> 'w WriteAheadState \<times> ('sdb, 'tx, 'msg) world" where
  "WAS_Reset d wa root w =
     (case was_Reset d (was_rest wa) (heap w (was_ethState wa)) root (dbase w) of
        (err, rest, v) \<Rightarrow>
          (err, wa\<lparr>was_rest := rest\<rparr>,
           called (WasReset root) (w\<lparr>heap := (heap w)(was_ethState wa := v)\<rparr>)))"

definition WAS_ApplyTransaction ::
  "('sdb, 'w, 'p, 'tx, 'rc, 'msg) deps \<Rightarrow> 'w WriteAheadState \<Rightarrow> 'tx \<Rightarrow> int \<Rightarrow> hash
     \<Rightarrow> ('sdb, 'tx, 'msg) world \<Rightarrow> error option \<times> 'w WriteAheadState \<times> ('sdb, 'tx, 'msg) world" where
  "WAS_ApplyTransaction d wa t txIndex blockHash w =
     (case was_ApplyTransaction d (was_rest wa) (heap w (was_ethState wa)) t txIndex blockHash of
        (err, rest, v) \<Rightarrow>
          (err, wa\<lparr>was_rest := rest\<rparr>,
           called (WasApplyTransaction t txIndex blockHash)
             (w\<lparr>heap := (heap w)(was_ethState wa := v)\<rparr>)))"

text \<open>\<open>NewTxPool(statedb, ...)\<close>: the pool keeps the \<open>StateDB\<close> it is given.\<close>

definition NewTxPool ::
  "('sdb, 'w, 'p, 'tx, 'rc, 'msg) deps \<Rightarrow> ref \<Rightarrow> ('sdb, 'tx, 'msg) world
     \<Rightarrow> 'p TxPool \<times> ('sdb, 'tx, 'msg) world" where
  "NewTxPool d r w = (\<lparr>pool_ethState = r, pool_rest = pool_New d\<rparr>, called (PoolNew r) w)"

definition TxPool_Reset ::
  "('sdb, 'w, 'p, 'tx, 'rc, 'msg) deps \<Rightarrow> 'p TxPool \<Rightarrow> hash \<Rightarrow> ('sdb, 'tx, 'msg) world
     \<Rightarrow> error option \<times> 'p TxPool \<times> ('sdb, 'tx, 'msg) world" where
  "TxPool_Reset d p root w =
     (case pool_Reset d (pool_rest p) (heap w (pool_ethState p)) root (dbase w) of
        (err, rest, v) \<Rightarrow>
          (err, p\<lparr>pool_rest := rest\<rparr>,
           called (PoolReset root) (w\<lparr>heap := (heap w)(pool_ethState p := v)\<rparr>)))"

definition TxPool_CheckTx ::
  "('sdb, 'w, 'p, 'tx, 'rc, 'msg) deps \<Rightarrow> 'p TxPool \<Rightarrow> 'tx \<Rightarrow> ('sdb, 'tx, 'msg) world
     \<Rightarrow> error option \<times> 'p TxPool \<times> ('sdb, 'tx, 'msg) world" where
  "TxPool_CheckTx d p t w =
     (case pool_CheckTx d (pool_rest p) (heap w (pool_ethState p)) t of
        (err, rest, v) \<Rightarrow>
          (err, p\<lparr>pool_rest := rest\<rparr>,
           called (PoolCheckTx t) (w\<lparr>heap := (heap w)(pool_ethState p := v)\<rparr>)))"

section \<open>The methods of State\<close>

text \<open>\<open>func (s *State) Commit() (common.Hash, error)\<close>\<close>

definition Commit ::
  "('sdb, 'w, 'p, 'tx, 'rc, 'msg) deps \<Rightarrow> ('w, 'p) State \<Rightarrow> ('sdb, 'tx, 'msg) world
     \<Rightarrow> (hash \<times> error option) \<times> ('w, 'p) State \<times> ('sdb, 'tx, 'msg) world" where
  "Commit d s w =
     (case WAS_Commit d (was s) w of
        ((root, Some err), wa1, w1) \<Rightarrow> ((root, Some err), s\<lparr>was := wa1\<rparr>, w1)
      | ((root, None), wa1, w1) \<Rightarrow>
          (case StateDB_Reset d (ethState s) root w1 of
             (Some err, w2) \<Rightarrow> ((root, Some err), s\<lparr>was := wa1\<rparr>, w2)
           | (None, w2) \<Rightarrow>
               (case WAS_Reset d wa1 root w2 of
                  (Some err, wa3, w3) \<Rightarrow> ((root, Some err), s\<lparr>was := wa3\<rparr>, w3)
                | (None, wa3, w3) \<Rightarrow>
                    (case TxPool_Reset d (txPool s) root w3 of
                       (Some err, p4, w4) \<Rightarrow> ((root, Some err), s\<lparr>was := wa3, txPool := p4\<rparr>, w4)
                     | (None, p4, w4) \<Rightarrow> ((root, None), s\<lparr>was := wa3, txPool := p4\<rparr>, w4)))))"

text \<open>
  \<open>func (s *State) InitState() error\<close>. The error of \<open>s.db.Get(rootKey)\<close> is dropped
  (\<open>data, _ := ...\<close>); with an error \<open>Get\<close> returns no data. The fields of \<open>s\<close> are
  assigned one after the other; the result is the \<open>State\<close> with all three assigned, or
  the error (\<open>NewState\<close> then drops the \<open>State\<close>).
\<close>

definition InitState ::
  "('sdb, 'w, 'p, 'tx, 'rc, 'msg) deps \<Rightarrow> ('sdb, 'tx, 'msg) world
     \<Rightarrow> (error + ('w, 'p) State) \<times> ('sdb, 'tx, 'msg) world" where
  "InitState d w =
     (let data = (case dbase w rootKey of Inl _ \<Rightarrow> [] | Inr v \<Rightarrow> v);
          rootHash = (if length data \<noteq> 0 then BytesToHash d data else zero_hash)
      in case StateDB_New d rootHash w of
           (Inl err, w1) \<Rightarrow> (Inl err, w1)
         | (Inr r, w1) \<Rightarrow>
             (case NewWriteAheadState d rootHash w1 of
                (Inl err, w2) \<Rightarrow> (Inl err, w2)
              | (Inr wa, w2) \<Rightarrow>
                  (case StateDB_Copy r w2 of
                     (c, w3) \<Rightarrow>
                       (case NewTxPool d c w3 of
                          (p, w4) \<Rightarrow> (Inr \<lparr>ethState = r, was = wa, txPool = p\<rparr>, w4)))))"

text \<open>\<open>func NewState(logger, dbFile, dbCache) (*State, error)\<close>\<close>

definition NewState ::
  "('sdb, 'w, 'p, 'tx, 'rc, 'msg) deps \<Rightarrow> string \<Rightarrow> int \<Rightarrow> ('sdb, 'tx, 'msg) world
     \<Rightarrow> (error + ('w, 'p) State) \<times> ('sdb, 'tx, 'msg) world" where
  "NewState d dbFile dbCache w =
     (case getFdLimit d of
        Inl err \<Rightarrow> (Inl err, w)
      | Inr handles \<Rightarrow>
          (case NewLDBDatabase d dbFile dbCache handles of
             Inl err \<Rightarrow> (Inl err, w)
           | Inr db \<Rightarrow> InitState d (w\<lparr>dbase := db\<rparr>)))"

text \<open>\<open>func (s *State) Call(callMsg ethTypes.Message) ([]byte, error)\<close>; \<open>(nil, err)\<close> is
  \<open>Inl err\<close>. It assigns no field of \<open>s\<close>.\<close>

definition Call ::
  "('sdb, 'w, 'p, 'tx, 'rc, 'msg) deps \<Rightarrow> ('w, 'p) State \<Rightarrow> 'msg \<Rightarrow> ('sdb, 'tx, 'msg) world
     \<Rightarrow> (error + bytes) \<times> ('sdb, 'tx, 'msg) world" where
  "Call d s callMsg w =
     (let context = \<lparr>Origin = msg_From d callMsg, GasPrice = msg_GasPrice d callMsg\<rparr>
      in case StateDB_Copy (was_ethState (was s)) w of
           (c, w1) \<Rightarrow>
             (case ApplyMessage d context c callMsg gasLimit w1 of
                ((res, Some err), w2) \<Rightarrow> (Inl err, w2)
              | ((res, None), w2) \<Rightarrow> (Inr res, w2)))"

text \<open>\<open>func (s *State) CheckTx(tx *ethTypes.Transaction) error\<close>\<close>

definition CheckTx ::
  "('sdb, 'w, 'p, 'tx, 'rc, 'msg) deps \<Rightarrow> ('w, 'p) State \<Rightarrow> 'tx \<Rightarrow> ('sdb, 'tx, 'msg) world
     \<Rightarrow> error option \<times> ('w, 'p) State \<times> ('sdb, 'tx, 'msg) world" where
  "CheckTx d s t w =
     (case TxPool_CheckTx d (txPool s) t w of (err, p, w1) \<Rightarrow> (err, s\<lparr>txPool := p\<rparr>, w1))"

text \<open>\<open>func (s *State) ApplyTransaction(txBytes []byte, txIndex int, blockHash common.Hash) error\<close>\<close>

definition ApplyTransaction ::
  "('sdb, 'w, 'p, 'tx, 'rc, 'msg) deps \<Rightarrow> ('w, 'p) State \<Rightarrow> bytes \<Rightarrow> int \<Rightarrow> hash
     \<Rightarrow> ('sdb, 'tx, 'msg) world \<Rightarrow> error option \<times> ('w, 'p) State \<times> ('sdb, 'tx, 'msg) world" where
  "ApplyTransaction d s txBytes txIndex blockHash w =
     (case rlp_Decode_tx d txBytes of
        Inl err \<Rightarrow> (Some err, s, w)
      | Inr t \<Rightarrow>
          (case WAS_ApplyTransaction d (was s) t txIndex blockHash w of
             (err, wa, w1) \<Rightarrow> (err, s\<lparr>was := wa\<rparr>, w1)))"

text \<open>
  \<open>func (s *State) CreateAccounts(accounts bcommon.AccountMap) error\<close>.
  \<open>math.MustParseBig256\<close> panics where \<open>ParseBig256\<close> reports failure; a panic leaves
  the function at once, with the world as it is then.
\<close>

datatype ('a, 'v) outcome = Panic 'v | Returns 'a

fun seed_storage ::
  "('sdb, 'w, 'p, 'tx, 'rc, 'msg) deps \<Rightarrow> ref \<Rightarrow> address \<Rightarrow> (string \<times> string) list
     \<Rightarrow> ('sdb, 'tx, 'msg) world \<Rightarrow> ('sdb, 'tx, 'msg) world" where
  "seed_storage d r a [] w = w"
| "seed_storage d r a ((key, val) # kvs) w =
     seed_storage d r a kvs (StateDB_SetState d r a (HexToHash d key) (HexToHash d val) w)"

fun seed_accounts ::
  "('sdb, 'w, 'p, 'tx, 'rc, 'msg) deps \<Rightarrow> ref \<Rightarrow> AccountMap
     \<Rightarrow> ('sdb, 'tx, 'msg) world \<Rightarrow> (('sdb, 'tx, 'msg) world, ('sdb, 'tx, 'msg) world) outcome" where
  "seed_accounts d r [] w = Returns w"
| "seed_accounts d r ((addr, account) # rest) w =
     (let a = HexToAddress d addr
      in case ParseBig256 d (Balance account) of
           None \<Rightarrow> Panic w
         | Some v \<Rightarrow>
             seed_accounts d r rest
               (seed_storage d r a (Storage account)
                  (StateDB_SetCode d r a (Hex2Bytes d (Code account))
                     (StateDB_AddBalance d r a v w))))"

definition CreateAccounts ::
  "('sdb, 'w, 'p, 'tx, 'rc, 'msg) deps \<Rightarrow> ('w, 'p) State \<Rightarrow> AccountMap \<Rightarrow> ('sdb, 'tx, 'msg) world
     \<Rightarrow> (error option \<times> ('w, 'p) State \<times> ('sdb, 'tx, 'msg) world, ('sdb, 'tx, 'msg) world) outcome" where
  "CreateAccounts d s accounts w =
     (case seed_accounts d (was_ethState (was s)) accounts w of
        Panic w1 \<Rightarrow> Panic w1
      | Returns w1 \<Rightarrow> (case Commit d s w1 of ((root, err), s1, w2) \<Rightarrow> Returns (err, s1, w2)))"

text \<open>\<open>GetBalance\<close>, \<open>GetNonce\<close>, \<open>GetPoolNonce\<close>\<close>

definition GetBalance ::
  "('sdb, 'w, 'p, 'tx, 'rc, 'msg) deps \<Rightarrow> ('w, 'p) State \<Rightarrow> address \<Rightarrow> ('sdb, 'tx, 'msg) world \<Rightarrow> int" where
  "GetBalance d s addr w = sdb_GetBalance d (heap w (ethState s)) addr"

definition GetNonce ::
  "('sdb, 'w, 'p, 'tx, 'rc, 'msg) deps \<Rightarrow> ('w, 'p) State \<Rightarrow> address \<Rightarrow> ('sdb, 'tx, 'msg) world \<Rightarrow> 64 word" where
  "GetNonce d s addr w = sdb_GetNonce d (heap w (ethState s)) addr"

definition GetPoolNonce ::
  "('sdb, 'w, 'p, 'tx, 'rc, 'msg) deps \<Rightarrow> ('w, 'p) State \<Rightarrow> address \<Rightarrow> ('sdb, 'tx, 'msg) world \<Rightarrow> 64 word" where
  "GetPoolNonce d s addr w = sdb_GetNonce d (heap w (pool_ethState (txPool s))) addr"

text \<open>\<open>GetTransaction\<close> and \<open>GetReceipt\<close>; \<open>hash.Bytes()\<close> is the byte list itself.\<close>

definition GetTransaction ::
  "('sdb, 'w, 'p, 'tx, 'rc, 'msg) deps \<Rightarrow> hash \<Rightarrow> ('sdb, 'tx, 'msg) world \<Rightarrow> error + 'tx" where
  "GetTransaction d h w =
     (case dbase w h of
        Inl err \<Rightarrow> Inl err
      | Inr data \<Rightarrow> (case rlp_DecodeBytes_tx d data of Inl err \<Rightarrow> Inl err | Inr t \<Rightarrow> Inr t))"

definition GetReceipt ::
  "('sdb, 'w, 'p, 'tx, 'rc, 'msg) deps \<Rightarrow> hash \<Rightarrow> ('sdb, 'tx, 'msg) world \<Rightarrow> error + 'rc" where
  "GetReceipt d txHash w =
     (case dbase w (receiptsPrefix @ txHash) of
        Inl err \<Rightarrow> Inl err
      | Inr data \<Rightarrow> (case rlp_DecodeBytes_receipt d data of Inl err \<Rightarrow> Inl err | Inr rc \<Rightarrow> Inr rc))"

section \<open>Well-formed states\<close>

text \<open>The objects a \<open>State\<close> points to have been allocated.\<close>

definition wf_State :: "('w, 'p) State \<Rightarrow> ('sdb, 'tx, 'msg) world \<Rightarrow> bool" where
  "wf_State s w \<longleftrightarrow>
     ethState s < nextref w \<and> was_ethState (was s) < nextref w \<and>
     pool_ethState (txPool s) < nextref w"

text \<open>
  The root \<open>InitState\<close> starts from: the bytes read under the key \<open>root\<close> as a hash
  when the read returns data, and the zero hash when the read returns no data or fails,
  whatever the error.
\<close>

definition startup_root :: "('sdb, 'w, 'p, 'tx, 'rc, 'msg) deps \<Rightarrow> database \<Rightarrow> hash" where
  "startup_root d db =
     (case db rootKey of
        Inr (b # bs) \<Rightarrow> BytesToHash d (b # bs)
      | _ \<Rightarrow> zero_hash)"

text \<open>
  A key is absent from the store when \<open>Get\<close> reports that it is not there. The read of
  a key fails when \<open>Get\<close> returns an error, this one or any other.
\<close>

definition absent :: "database \<Rightarrow> bytes \<Rightarrow> bool" where
  "absent db k \<longleftrightarrow> db k = Inl ErrNotFound"

definition read_fails :: "database \<Rightarrow> bytes \<Rightarrow> bool" where
  "read_fails db k = (case db k of Inl _ \<Rightarrow> True | Inr _ \<Rightarrow> False)"

text \<open>The three states of a \<open>State\<close> are three objects.\<close>

definition separate :: "('w, 'p) State \<Rightarrow> bool" where
  "separate s \<longleftrightarrow>
     ethState s \<noteq> was_ethState (was s) \<and> ethState s \<noteq> pool_ethState (txPool s) \<and>
     was_ethState (was s) \<noteq> pool_ethState (txPool s)"

text \<open>The calls that seed one account, and an account map, into the object \<open>r\<close>.\<close>

definition account_calls ::
  "('sdb, 'w, 'p, 'tx, 'rc, 'msg) deps \<Rightarrow> ref \<Rightarrow> string \<times> Account \<Rightarrow> ('tx, 'msg) call list" where
  "account_calls d r e =
     [SdbAddBalance r (HexToAddress d (fst e)) (the (ParseBig256 d (Balance (snd e)))),
      SdbSetCode r (HexToAddress d (fst e)) (Hex2Bytes d (Code (snd e)))] @
     map (\<lambda>kv. SdbSetState r (HexToAddress d (fst e)) (HexToHash d (fst kv)) (HexToHash d (snd kv)))
       (Storage (snd e))"

definition seeding_calls ::
  "('sdb, 'w, 'p, 'tx, 'rc, 'msg) deps \<Rightarrow> ref \<Rightarrow> AccountMap \<Rightarrow> ('tx, 'msg) call list" where
  "seeding_calls d r accounts = concat (map (account_calls d r) accounts)"

text \<open>The content of an object after one account, and after an account map, has been
  seeded into it.\<close>

definition account_content ::
  "('sdb, 'w, 'p, 'tx, 'rc, 'msg) deps \<Rightarrow> 'sdb \<Rightarrow> string \<times> Account \<Rightarrow> 'sdb" where
  "account_content d v e =
     foldl (\<lambda>x kv. sdb_SetState d x (HexToAddress d (fst e)) (HexToHash d (fst kv)) (HexToHash d (snd kv)))
       (sdb_SetCode d
          (sdb_AddBalance d v (HexToAddress d (fst e)) (the (ParseBig256 d (Balance (snd e)))))
          (HexToAddress d (fst e)) (Hex2Bytes d (Code (snd e))))
       (Storage (snd e))"

definition seeded_content ::
  "('sdb, 'w, 'p, 'tx, 'rc, 'msg) deps \<Rightarrow> 'sdb \<Rightarrow> AccountMap \<Rightarrow> 'sdb" where
  "seeded_content d v accounts = foldl (account_content d) v accounts"

definition balances_parse :: "('sdb, 'w, 'p, 'tx, 'rc, 'msg) deps \<Rightarrow> AccountMap \<Rightarrow> bool" where
  "balances_parse d accounts = list_all (\<lambda>e. ParseBig256 d (Balance (snd e)) \<noteq> None) accounts"

section \<open>A small instance of the collaborators\<close>

text \<open>
  A ledger small enough to compute with: the content of a \<open>StateDB\<close> is one amount that
  every address shows, its root is that amount as the last byte of a hash, transactions
  and messages are byte strings. The faults say which steps of a commit fail.
\<close>

record faults =
  commit_err :: "error option"
  sdb_reset_err :: "error option"
  was_reset_err :: "error option"
  pool_reset_err :: "error option"

definition no_faults :: faults where
  "no_faults = \<lparr>commit_err = None, sdb_reset_err = None, was_reset_err = None, pool_reset_err = None\<rparr>"

definition root_of :: "int \<Rightarrow> hash" where
  "root_of v = replicate 31 0 @ [of_int v]"

definition amount_at :: "hash \<Rightarrow> int" where
  "amount_at root = (case rev root of [] \<Rightarrow> 0 | b # bs \<Rightarrow> uint b)"

definition digit_of :: "char \<Rightarrow> int option" where
  "digit_of c =
     (if (48::nat) \<le> of_char c \<and> of_char c \<le> (57::nat) then Some (int (of_char c) - 48) else None)"

fun parse_decimal :: "int \<Rightarrow> string \<Rightarrow> int option" where
  "parse_decimal acc [] = Some acc"
| "parse_decimal acc (c # cs) =
     (case digit_of c of None \<Rightarrow> None | Some k \<Rightarrow> parse_decimal (10 * acc + k) cs)"

definition demo :: "faults \<Rightarrow> (int, nat, nat, bytes, bytes, bytes) deps" where
  "demo f =
     \<lparr>getFdLimit = Inr 1024,
      NewLDBDatabase = (\<lambda>file cache handles. Inr (\<lambda>k. Inl ErrNotFound)),
      sdb_New = (\<lambda>root db. Inr (amount_at root)),
      sdb_Reset = (\<lambda>v root db. case sdb_reset_err f of
                                   Some e \<Rightarrow> (Some e, v) | None \<Rightarrow> (None, amount_at root)),
      sdb_GetBalance = (\<lambda>v a. v),
      sdb_GetNonce = (\<lambda>v a. 0),
      sdb_AddBalance = (\<lambda>v a x. v + x),
      sdb_SetCode = (\<lambda>v a c. v),
      sdb_SetState = (\<lambda>v a k x. v),
      msg_From = (\<lambda>m. take 20 m),
      msg_GasPrice = (\<lambda>m. 0),
      core_ApplyMessage = (\<lambda>ctx m gas v. (([of_int v], None), v + 1)),
      rlp_Decode_tx = (\<lambda>b. if b = [] then Inl ErrDecode else Inr b),
      rlp_DecodeBytes_tx = (\<lambda>b. if b = [] then Inl ErrDecode else Inr b),
      rlp_DecodeBytes_receipt = (\<lambda>b. if b = [] then Inl ErrDecode else Inr b),
      BytesToHash = (\<lambda>b. replicate (32 - length b) 0 @ drop (length b - 32) b),
      HexToAddress = bytes_of_string,
      HexToHash = bytes_of_string,
      Hex2Bytes = bytes_of_string,
      ParseBig256 = parse_decimal 0,
      was_New = (\<lambda>db root. Inr (0, amount_at root)),
      was_Commit = (\<lambda>n v db. case commit_err f of
                                  Some e \<Rightarrow> ((zero_hash, Some e), n, v, db)
                                | None \<Rightarrow> ((root_of v, None), n, v, db(rootKey := Inr (root_of v)))),
      was_Reset = (\<lambda>n v root db. case was_reset_err f of
                                     Some e \<Rightarrow> (Some e, n, v) | None \<Rightarrow> (None, 0, amount_at root)),
      was_ApplyTransaction = (\<lambda>n v t i h. (None, Suc n, v + 1)),
      pool_New = 0,
      pool_Reset = (\<lambda>n v root db. case pool_reset_err f of
                                      Some e \<Rightarrow> (Some e, n, v) | None \<Rightarrow> (None, 0, amount_at root)),
      pool_CheckTx = (\<lambda>n v t. (None, Suc n, v))\<rparr>"

text \<open>A world with three objects (amounts 10, 20 and 10), an empty store and no call
  made yet, and the \<open>State\<close> that points to them.\<close>

definition world0 :: "(int, bytes, bytes) world" where
  "world0 =
     \<lparr>heap = (\<lambda>r. if r = 1 then 20 else 10), nextref = 3,
      dbase = (\<lambda>k. Inl ErrNotFound), calls = []\<rparr>"

definition state0 :: "(nat, nat) State" where
  "state0 =
     \<lparr>ethState = 0,
      was = \<lparr>was_ethState = 1, was_rest = 0\<rparr>,
      txPool = \<lparr>pool_ethState = 2, pool_rest = 0\<rparr>\<rparr>"

text \<open>Account maps: one whose balances parse, and two with a balance that does not.\<close>

definition accounts_ok :: AccountMap where
  "accounts_ok =
     [(''a1'', \<lparr>Balance = ''100'', Code = ''60'', Storage = [(''01'', ''ff'')]\<rparr>),
      (''b2'', \<lparr>Balance = ''7'', Code = [], Storage = []\<rparr>)]"

definition accounts_bad :: AccountMap where
  "accounts_bad = [(''a1'', \<lparr>Balance = ''12x'', Code = [], Storage = []\<rparr>)]"

definition accounts_bad2 :: AccountMap where
  "accounts_bad2 =
     [(''a1'', \<lparr>Balance = ''100'', Code = [], Storage = []\<rparr>),
      (''b2'', \<lparr>Balance = ''ten'', Code = [], Storage = []\<rparr>)]"

text \<open>A store that holds a root, a transaction and its receipt, and bytes that do not
  decode under a second hash; and a store whose reads all fail.\<close>

definition tx_hash :: hash where
  "tx_hash = root_of 7"

definition bad_hash :: hash where
  "bad_hash = root_of 8"

definition store1 :: database where
  "store1 =
     (\<lambda>k. if k = rootKey then Inr (root_of 20)
          else if k = tx_hash then Inr [1, 2, 3]
          else if k = receiptsPrefix @ tx_hash then Inr [4, 5]
          else if k = bad_hash then Inr []
          else if k = receiptsPrefix @ bad_hash then Inr []
          else Inl ErrNotFound)"

definition world1 :: "(int, bytes, bytes) world" where
  "world1 = \<lparr>heap = (\<lambda>r. 0), nextref = 0, dbase = store1, calls = []\<rparr>"

text \<open>The same store with a read of the root key that fails.\<close>

definition store2 :: database where
  "store2 = store1(rootKey := Inl ErrIO)"

definition world2 :: "(int, bytes, bytes) world" where
  "world2 = \<lparr>heap = (\<lambda>r. 0), nextref = 0, dbase = store2, calls = []\<rparr>"

definition broken_db :: database where
  "broken_db = (\<lambda>k. Inl ErrIO)"

definition world_broken :: "(int, bytes, bytes) world" where
  "world_broken = \<lparr>heap = (\<lambda>r. 0), nextref = 0, dbase = broken_db, calls = []\<rparr>"

section \<open>The calls each collaborator step records\<close>

lemma WAS_Commit_calls: "WAS_Commit d wa w = (res, wa1, w1) \<Longrightarrow> calls w1 = calls w @ [WasCommit]"
  by (auto simp: WAS_Commit_def called_def split: prod.splits)

lemma StateDB_Reset_calls: "StateDB_Reset d r root w = (e, w1) \<Longrightarrow> calls w1 = calls w @ [SdbReset r root]"
  by (auto simp: StateDB_Reset_def called_def split: prod.splits)

lemma WAS_Reset_calls: "WAS_Reset d wa root w = (e, wa1, w1) \<Longrightarrow> calls w1 = calls w @ [WasReset root]"
  by (auto simp: WAS_Reset_def called_def split: prod.splits)

lemma TxPool_Reset_calls: "TxPool_Reset d p root w = (e, p1, w1) \<Longrightarrow> calls w1 = calls w @ [PoolReset root]"
  by (auto simp: TxPool_Reset_def called_def split: prod.splits)




lemma root_choice:
  "(if length (case db rootKey of Inl x \<Rightarrow> [] | Inr v \<Rightarrow> v) \<noteq> 0
    then BytesToHash d (case db rootKey of Inl x \<Rightarrow> [] | Inr v \<Rightarrow> v) else zero_hash) =
   startup_root d db"
  by (auto simp: startup_root_def split: sum.splits list.splits)

lemma InitState_Inr:
  assumes "InitState d w = (Inr s, w')"
  shows "\<exists>v rest u.
     sdb_New d (startup_root d (dbase w)) (dbase w) = Inr v \<and>
     was_New d (dbase w) (startup_root d (dbase w)) = Inr (rest, u) \<and>
     s = \<lparr>ethState = nextref w,
          was = \<lparr>was_ethState = Suc (nextref w), was_rest = rest\<rparr>,
          txPool = \<lparr>pool_ethState = Suc (Suc (nextref w)), pool_rest = pool_New d\<rparr>\<rparr> \<and>
     w' = \<lparr>heap = (heap w)(nextref w := v, Suc (nextref w) := u, Suc (Suc (nextref w)) := v),
           nextref = Suc (Suc (Suc (nextref w))),
           dbase = dbase w,
           calls = calls w @
             [SdbNew (nextref w) (startup_root d (dbase w)),
              WasNew (Suc (nextref w)) (startup_root d (dbase w)),
              SdbCopy (nextref w) (Suc (Suc (nextref w))),
              PoolNew (Suc (Suc (nextref w)))]\<rparr>"
  using assms
  unfolding InitState_def Let_def root_choice
  by (auto simp: StateDB_New_def NewWriteAheadState_def StateDB_Copy_def NewTxPool_def
      alloc_def called_def split: sum.splits prod.splits)

lemma Commit_success:
  assumes "Commit d s w = ((root, None), s', w')"
  shows "\<exists>wa1 w1 w2 wa3 w3 p4.
     WAS_Commit d (was s) w = ((root, None), wa1, w1) \<and>
     StateDB_Reset d (ethState s) root w1 = (None, w2) \<and>
     WAS_Reset d wa1 root w2 = (None, wa3, w3) \<and>
     TxPool_Reset d (txPool s) root w3 = (None, p4, w') \<and>
     s' = s\<lparr>was := wa3, txPool := p4\<rparr>"
  using assms unfolding Commit_def
  by (auto split: prod.splits option.splits)

lemma WAS_Commit_ref: "WAS_Commit d wa w = (res, wa1, w1) \<Longrightarrow> was_ethState wa1 = was_ethState wa"
  by (auto simp: WAS_Commit_def split: prod.splits)

lemma WAS_Reset_ref: "WAS_Reset d wa root w = (e, wa1, w1) \<Longrightarrow> was_ethState wa1 = was_ethState wa"
  by (auto simp: WAS_Reset_def split: prod.splits)

lemma TxPool_Reset_ref: "TxPool_Reset d p root w = (e, p1, w1) \<Longrightarrow> pool_ethState p1 = pool_ethState p"
  by (auto simp: TxPool_Reset_def split: prod.splits)

lemma Call_world:
  "snd (Call d s m w) =
     w\<lparr>heap := (heap w)(nextref w :=
          snd (core_ApplyMessage d \<lparr>Origin = msg_From d m, GasPrice = msg_GasPrice d m\<rparr> m gasLimit
                 (heap w (was_ethState (was s))))),
       nextref := Suc (nextref w),
       calls := calls w @
         [SdbCopy (was_ethState (was s)) (nextref w),
          ApplyMsg (nextref w) \<lparr>Origin = msg_From d m, GasPrice = msg_GasPrice d m\<rparr> m gasLimit]\<rparr>"
  by (auto simp: Call_def Let_def StateDB_Copy_def ApplyMessage_def alloc_def called_def
      split: prod.splits option.splits)

lemmas init_defs = InitState_def StateDB_New_def NewWriteAheadState_def StateDB_Copy_def
  NewTxPool_def alloc_def called_def

lemma InitState_result:
  "fst (InitState d w) =
     (case sdb_New d (startup_root d (dbase w)) (dbase w) of
        Inl e \<Rightarrow> Inl e
      | Inr v \<Rightarrow>
          (case was_New d (dbase w) (startup_root d (dbase w)) of
             Inl e \<Rightarrow> Inl e
           | Inr (rest, u) \<Rightarrow>
               Inr \<lparr>ethState = nextref w,
                    was = \<lparr>was_ethState = Suc (nextref w), was_rest = rest\<rparr>,
                    txPool = \<lparr>pool_ethState = Suc (Suc (nextref w)), pool_rest = pool_New d\<rparr>\<rparr>))"
  unfolding InitState_def Let_def root_choice
  by (auto simp: StateDB_New_def NewWriteAheadState_def StateDB_Copy_def NewTxPool_def
      alloc_def called_def split: sum.splits prod.splits)

lemma startup_root_unread:
  "dbase w rootKey = Inl e \<Longrightarrow> startup_root d (dbase w) = zero_hash"
  by (simp add: startup_root_def)

lemma Commit_error_cases:
  "snd (fst (WAS_Commit d (was s) w)) = Some e \<Longrightarrow> snd (fst (Commit d s w)) = Some e"
  "WAS_Commit d (was s) w = ((root, None), wa1, w1) \<Longrightarrow>
     fst (StateDB_Reset d (ethState s) root w1) = Some e \<Longrightarrow> snd (fst (Commit d s w)) = Some e"
  "WAS_Commit d (was s) w = ((root, None), wa1, w1) \<Longrightarrow>
     StateDB_Reset d (ethState s) root w1 = (None, w2) \<Longrightarrow>
     fst (WAS_Reset d wa1 root w2) = Some e \<Longrightarrow> snd (fst (Commit d s w)) = Some e"
  "WAS_Commit d (was s) w = ((root, None), wa1, w1) \<Longrightarrow>
     StateDB_Reset d (ethState s) root w1 = (None, w2) \<Longrightarrow>
     WAS_Reset d wa1 root w2 = (None, wa3, w3) \<Longrightarrow>
     fst (TxPool_Reset d (txPool s) root w3) = Some e \<Longrightarrow> snd (fst (Commit d s w)) = Some e"
  by (auto simp: Commit_def split: prod.splits option.splits)

lemma seed_storage_world:
  "seed_storage d r a kvs w =
     w\<lparr>heap := (heap w)(r :=
          foldl (\<lambda>x kv. sdb_SetState d x a (HexToHash d (fst kv)) (HexToHash d (snd kv)))
            (heap w r) kvs),
       calls := calls w @
          map (\<lambda>kv. SdbSetState r a (HexToHash d (fst kv)) (HexToHash d (snd kv))) kvs\<rparr>"
proof (induction kvs arbitrary: w)
  case Nil
  then show ?case by simp
next
  case (Cons kv kvs)
  obtain k x where kv: "kv = (k, x)" by (cases kv)
  show ?case
    by (simp add: kv Cons.IH StateDB_SetState_def called_def cong: if_cong)
qed

lemma seed_accounts_world:
  "balances_parse d accounts \<Longrightarrow>
   seed_accounts d r accounts w =
     Returns (w\<lparr>heap := (heap w)(r := seeded_content d (heap w r) accounts),
               calls := calls w @ seeding_calls d r accounts\<rparr>)"
proof (induction accounts arbitrary: w)
  case Nil
  then show ?case by (simp add: seeded_content_def seeding_calls_def)
next
  case (Cons e accounts)
  obtain addr account where e: "e = (addr, account)" by (cases e)
  from Cons.prems obtain v where v: "ParseBig256 d (Balance account) = Some v"
    and rest: "balances_parse d accounts"
    by (auto simp: balances_parse_def e)
  show ?case
    by (simp add: e v Cons.IH [OF rest] seed_storage_world StateDB_SetCode_def
        StateDB_AddBalance_def called_def seeded_content_def seeding_calls_def
        account_content_def account_calls_def Let_def cong: if_cong)
qed

lemma seed_accounts_panics:
  "\<not> balances_parse d accounts \<Longrightarrow> \<exists>w'. seed_accounts d r accounts w = Panic w'"
proof (induction accounts arbitrary: w)
  case Nil
  then show ?case by (simp add: balances_parse_def)
next
  case (Cons e accounts)
  obtain addr account where e: "e = (addr, account)" by (cases e)
  show ?case
  proof (cases "ParseBig256 d (Balance account)")
    case None
    then show ?thesis by (simp add: e)
  next
    case (Some v)
    with Cons.prems have "\<not> balances_parse d accounts"
      by (simp add: balances_parse_def e)
    from Cons.IH [OF this] show ?thesis by (simp add: e Some Let_def)
  qed
qed

lemma digit_simps:
  "digit_of CHR ''0'' = Some 0" "digit_of CHR ''1'' = Some 1" "digit_of CHR ''2'' = Some 2"
  "digit_of CHR ''7'' = Some 7" "digit_of CHR ''x'' = None" "digit_of CHR ''t'' = None"
  by (simp_all add: digit_of_def)

lemmas accounts_simps = accounts_ok_def accounts_bad_def accounts_bad2_def balances_parse_def
  digit_simps

lemma Commit_success_contents:
  assumes "separate s" and "Commit d s w = ((root, None), s', w')"
  shows "case was_Commit d (was_rest (was s)) (heap w (was_ethState (was s))) (dbase w) of
      (res, rest1, v1, db1) \<Rightarrow>
        res = (root, None) \<and> dbase w' = db1 \<and>
        sdb_Reset d (heap w (ethState s)) root db1 = (None, heap w' (ethState s)) \<and>
        was_Reset d rest1 v1 root db1 =
          (None, was_rest (was s'), heap w' (was_ethState (was s))) \<and>
        pool_Reset d (pool_rest (txPool s)) (heap w (pool_ethState (txPool s))) root db1 =
          (None, pool_rest (txPool s'), heap w' (pool_ethState (txPool s)))"
proof -
  from Commit_success [OF assms(2)] obtain wa1 w1 w2 wa3 w3 p4 where
    h1: "WAS_Commit d (was s) w = ((root, None), wa1, w1)" and
    h2: "StateDB_Reset d (ethState s) root w1 = (None, w2)" and
    h3: "WAS_Reset d wa1 root w2 = (None, wa3, w3)" and
    h4: "TxPool_Reset d (txPool s) root w3 = (None, p4, w')" and
    s': "s' = s\<lparr>was := wa3, txPool := p4\<rparr>"
    by blast
  obtain res rest1 v1 db1 where
    k: "was_Commit d (was_rest (was s)) (heap w (was_ethState (was s))) (dbase w) =
          (res, rest1, v1, db1)"
    by (metis prod.exhaust)
  from h1 k have res: "res = (root, None)"
    and wa1: "wa1 = (was s)\<lparr>was_rest := rest1\<rparr>"
    and w1: "w1 = called WasCommit (w\<lparr>heap := (heap w)(was_ethState (was s) := v1), dbase := db1\<rparr>)"
    by (auto simp: WAS_Commit_def)
  obtain e2 v2 where k2: "sdb_Reset d (heap w1 (ethState s)) root (dbase w1) = (e2, v2)"
    by (metis prod.exhaust)
  from h2 k2 have e2: "e2 = None"
    and w2: "w2 = called (SdbReset (ethState s) root) (w1\<lparr>heap := (heap w1)(ethState s := v2)\<rparr>)"
    by (auto simp: StateDB_Reset_def)
  obtain e3 rest3 v3 where
    k3: "was_Reset d (was_rest wa1) (heap w2 (was_ethState wa1)) root (dbase w2) = (e3, rest3, v3)"
    by (metis prod.exhaust)
  from h3 k3 have e3: "e3 = None" and wa3: "wa3 = wa1\<lparr>was_rest := rest3\<rparr>"
    and w3: "w3 = called (WasReset root) (w2\<lparr>heap := (heap w2)(was_ethState wa1 := v3)\<rparr>)"
    by (auto simp: WAS_Reset_def)
  obtain e4 rest4 v4 where
    k4: "pool_Reset d (pool_rest (txPool s)) (heap w3 (pool_ethState (txPool s))) root (dbase w3) =
          (e4, rest4, v4)"
    by (metis prod.exhaust)
  from h4 k4 have e4: "e4 = None" and p4: "p4 = (txPool s)\<lparr>pool_rest := rest4\<rparr>"
    and w': "w' = called (PoolReset root)
                    (w3\<lparr>heap := (heap w3)(pool_ethState (txPool s) := v4)\<rparr>)"
    by (auto simp: TxPool_Reset_def)
  from assms(1) have n: "ethState s \<noteq> was_ethState (was s)"
    "ethState s \<noteq> pool_ethState (txPool s)"
    "was_ethState (was s) \<noteq> pool_ethState (txPool s)"
    by (simp_all add: separate_def)
  have d1: "dbase w1 = db1" "dbase w2 = db1" "dbase w3 = db1" "dbase w' = db1"
    by (simp_all add: w1 w2 w3 w' called_def)
  have a2: "heap w1 (ethState s) = heap w (ethState s)"
    using n by (simp add: w1 called_def)
  have a3: "heap w2 (was_ethState wa1) = v1"
    using n by (simp add: w2 w1 wa1 called_def)
  have a4: "heap w3 (pool_ethState (txPool s)) = heap w (pool_ethState (txPool s))"
    using n by (simp add: w3 w2 w1 wa1 called_def)
  have f2: "heap w' (ethState s) = v2"
    using n by (simp add: w' w3 w2 wa1 called_def)
  have f3: "heap w' (was_ethState (was s)) = v3"
    using n by (simp add: w' w3 wa1 called_def)
  have f4: "heap w' (pool_ethState (txPool s)) = v4"
    by (simp add: w' called_def)
  have g3: "was_rest (was s') = rest3" by (simp add: s' wa3)
  have g4: "pool_rest (txPool s') = rest4" by (simp add: s' p4)
  have r1: "was_rest wa1 = rest1" by (simp add: wa1)
  show ?thesis
    using k2 k3 k4
    by (simp add: k res d1 a2 a3 a4 f2 f3 f4 g3 g4 r1 e2 e3 e4)
qed

lemma startup_root_cases:
  "dbase w rootKey = Inr (b # bs) \<Longrightarrow> startup_root d (dbase w) = BytesToHash d (b # bs)"
  "dbase w rootKey = Inr [] \<Longrightarrow> startup_root d (dbase w) = zero_hash"
  "dbase w rootKey = Inl e \<Longrightarrow> startup_root d (dbase w) = zero_hash"
  by (simp_all add: startup_root_def)

lemmas step_defs = WAS_Commit_def StateDB_Reset_def WAS_Reset_def TxPool_Reset_def called_def

lemma root_of_bytes:
  "root_of v = [0,0,0,0,0,0,0,0,0,0,0,0,0,0,0,0,0,0,0,0,0,0,0,0,0,0,0,0,0,0,0, of_int v]"
  by (simp add: root_of_def eval_nat_numeral)

lemma zero_hash_bytes:
  "zero_hash = [0,0,0,0,0,0,0,0,0,0,0,0,0,0,0,0,0,0,0,0,0,0,0,0,0,0,0,0,0,0,0,0]"
  by (simp add: zero_hash_def eval_nat_numeral)

lemma key_bytes:
  "rootKey = [114, 111, 111, 116]"
  "receiptsPrefix = [114, 101, 99, 101, 105, 112, 116, 115, 45]"
  by (simp_all add: rootKey_def receiptsPrefix_def bytes_of_string_def)

lemmas demo_simps = demo_def no_faults_def state0_def world0_def world1_def store1_def
  world2_def store2_def tx_hash_def bad_hash_def amount_at_def root_of_bytes zero_hash_bytes key_bytes Let_def


section \<open>Commit\<close>




text \<open>
  C3, as the code has it. When a reset fails after \<open>WAS.Commit\<close> has succeeded,
  \<open>Commit\<close> returns the root together with the error of that reset, at once: the reset
  has been called once, it is not called again, and the resets after it are not called.
\<close>

theorem Commit_reset_failure:
  assumes "WAS_Commit d (was s) w = ((root, None), wa1, w1)"
  shows
  "(StateDB_Reset d (ethState s) root w1 = (Some e, w2) \<longrightarrow>
      Commit d s w = ((root, Some e), s\<lparr>was := wa1\<rparr>, w2) \<and>
      calls w2 = calls w @ [WasCommit, SdbReset (ethState s) root]) \<and>
   (StateDB_Reset d (ethState s) root w1 = (None, w2) \<and>
    WAS_Reset d wa1 root w2 = (Some e, wa3, w3) \<longrightarrow>
      Commit d s w = ((root, Some e), s\<lparr>was := wa3\<rparr>, w3) \<and>
      calls w3 = calls w @ [WasCommit, SdbReset (ethState s) root, WasReset root]) \<and>
   (StateDB_Reset d (ethState s) root w1 = (None, w2) \<and>
    WAS_Reset d wa1 root w2 = (None, wa3, w3) \<and>
    TxPool_Reset d (txPool s) root w3 = (Some e, p4, w4) \<longrightarrow>
      Commit d s w = ((root, Some e), s\<lparr>was := wa3, txPool := p4\<rparr>, w4) \<and>
      calls w4 =
        calls w @ [WasCommit, SdbReset (ethState s) root, WasReset root, PoolReset root])"
proof (intro conjI impI)
  assume h: "StateDB_Reset d (ethState s) root w1 = (Some e, w2)"
  with assms show "Commit d s w = ((root, Some e), s\<lparr>was := wa1\<rparr>, w2)"
    by (simp add: Commit_def)
  from assms h show "calls w2 = calls w @ [WasCommit, SdbReset (ethState s) root]"
    by (auto dest!: WAS_Commit_calls StateDB_Reset_calls)
next
  assume h: "StateDB_Reset d (ethState s) root w1 = (None, w2) \<and>
    WAS_Reset d wa1 root w2 = (Some e, wa3, w3)"
  with assms show "Commit d s w = ((root, Some e), s\<lparr>was := wa3\<rparr>, w3)"
    by (simp add: Commit_def)
  from assms h show "calls w3 = calls w @ [WasCommit, SdbReset (ethState s) root, WasReset root]"
    by (auto dest!: WAS_Commit_calls StateDB_Reset_calls WAS_Reset_calls)
next
  assume h: "StateDB_Reset d (ethState s) root w1 = (None, w2) \<and>
    WAS_Reset d wa1 root w2 = (None, wa3, w3) \<and>
    TxPool_Reset d (txPool s) root w3 = (Some e, p4, w4)"
  with assms show "Commit d s w = ((root, Some e), s\<lparr>was := wa3, txPool := p4\<rparr>, w4)"
    by (simp add: Commit_def)
  from assms h show "calls w4 =
        calls w @ [WasCommit, SdbReset (ethState s) root, WasReset root, PoolReset root]"
    by (auto dest!: WAS_Commit_calls StateDB_Reset_calls WAS_Reset_calls TxPool_Reset_calls)
qed

theorem Commit_reset_failure_witness:
  "fst (Commit (demo (no_faults\<lparr>sdb_reset_err := Some ErrMissingNode\<rparr>)) state0 world0) =
     (root_of 20, Some ErrMissingNode) \<and>
   fst (Commit (demo (no_faults\<lparr>was_reset_err := Some ErrMissingNode\<rparr>)) state0 world0) =
     (root_of 20, Some ErrMissingNode) \<and>
   fst (Commit (demo (no_faults\<lparr>pool_reset_err := Some ErrMissingNode\<rparr>)) state0 world0) =
     (root_of 20, Some ErrMissingNode)"
proof -
  let ?r = "root_of 20"
  let ?a = "demo (no_faults\<lparr>sdb_reset_err := Some ErrMissingNode\<rparr>)"
  let ?b = "demo (no_faults\<lparr>was_reset_err := Some ErrMissingNode\<rparr>)"
  let ?c = "demo (no_faults\<lparr>pool_reset_err := Some ErrMissingNode\<rparr>)"
  define a1 where "a1 = snd (WAS_Commit ?a (was state0) world0)"
  define a2 where "a2 = snd (StateDB_Reset ?a (ethState state0) ?r (snd a1))"
  have ha1: "WAS_Commit ?a (was state0) world0 = ((?r, None), fst a1, snd a1)"
    by (simp add: a1_def step_defs demo_simps)
  have ha2: "StateDB_Reset ?a (ethState state0) ?r (snd a1) = (Some ErrMissingNode, a2)"
    by (simp add: a2_def a1_def step_defs demo_simps)
  define b1 where "b1 = snd (WAS_Commit ?b (was state0) world0)"
  define b2 where "b2 = snd (StateDB_Reset ?b (ethState state0) ?r (snd b1))"
  define b3 where "b3 = snd (WAS_Reset ?b (fst b1) ?r b2)"
  have hb1: "WAS_Commit ?b (was state0) world0 = ((?r, None), fst b1, snd b1)"
    by (simp add: b1_def step_defs demo_simps)
  have hb2: "StateDB_Reset ?b (ethState state0) ?r (snd b1) = (None, b2)"
    by (simp add: b2_def b1_def step_defs demo_simps)
  have hb3: "WAS_Reset ?b (fst b1) ?r b2 = (Some ErrMissingNode, fst b3, snd b3)"
    by (simp add: b3_def b2_def b1_def step_defs demo_simps)
  define c1 where "c1 = snd (WAS_Commit ?c (was state0) world0)"
  define c2 where "c2 = snd (StateDB_Reset ?c (ethState state0) ?r (snd c1))"
  define c3 where "c3 = snd (WAS_Reset ?c (fst c1) ?r c2)"
  define c4 where "c4 = snd (TxPool_Reset ?c (txPool state0) ?r (snd c3))"
  have hc1: "WAS_Commit ?c (was state0) world0 = ((?r, None), fst c1, snd c1)"
    by (simp add: c1_def step_defs demo_simps)
  have hc2: "StateDB_Reset ?c (ethState state0) ?r (snd c1) = (None, c2)"
    by (simp add: c2_def c1_def step_defs demo_simps)
  have hc3: "WAS_Reset ?c (fst c1) ?r c2 = (None, fst c3, snd c3)"
    by (simp add: c3_def c2_def c1_def step_defs demo_simps)
  have hc4: "TxPool_Reset ?c (txPool state0) ?r (snd c3) = (Some ErrMissingNode, fst c4, snd c4)"
    by (simp add: c4_def c3_def c2_def c1_def step_defs demo_simps)
  from Commit_reset_failure [OF ha1, where e = ErrMissingNode and ?w2.0 = a2] ha2
  have A: "Commit ?a state0 world0 = ((?r, Some ErrMissingNode), state0\<lparr>was := fst a1\<rparr>, a2)"
    by blast
  from Commit_reset_failure [OF hb1, where e = ErrMissingNode and ?w2.0 = b2
      and ?wa3.0 = "fst b3" and ?w3.0 = "snd b3"] hb2 hb3
  have B: "Commit ?b state0 world0 = ((?r, Some ErrMissingNode), state0\<lparr>was := fst b3\<rparr>, snd b3)"
    by blast
  from Commit_reset_failure [OF hc1, where e = ErrMissingNode and ?w2.0 = c2
      and ?wa3.0 = "fst c3" and ?w3.0 = "snd c3" and ?p4.0 = "fst c4" and ?w4.0 = "snd c4"] hc2 hc3 hc4
  have C: "Commit ?c state0 world0 =
      ((?r, Some ErrMissingNode), state0\<lparr>was := fst c3, txPool := fst c4\<rparr>, snd c4)"
    by blast
  show ?thesis by (simp add: A B C)
qed


text \<open>
  C3 as stated fails: with a committed \<open>ethState\<close> whose reset fails, \<open>Commit\<close> returns
  that error after \<open>WAS.Commit\<close> and one call of the reset.
\<close>

theorem Commit_reset_retry_counterexample:
  "fst (Commit (demo (no_faults\<lparr>sdb_reset_err := Some ErrMissingNode\<rparr>)) state0 world0) =
     (root_of 20, Some ErrMissingNode) \<and>
   calls (snd (snd (Commit (demo (no_faults\<lparr>sdb_reset_err := Some ErrMissingNode\<rparr>)) state0 world0))) =
     [WasCommit, SdbReset 0 (root_of 20)]"
  by (simp add: Commit_def step_defs demo_simps)

section \<open>One root for the three states\<close>

text \<open>
  C2, as the code has it. When \<open>InitState\<close> succeeds, the committed \<open>ethState\<close> and the
  WAS have been created from one root and the TxPool on a copy of that new \<open>ethState\<close>,
  whose content it shows; the three are three objects. The root is the one read under the
  key \<open>root\<close> when the read returns data; it is the zero hash when the read returns no
  data and when the read fails, with whatever error. When \<open>Commit\<close> succeeds, the calls
  it has made are \<open>WAS.Commit\<close> and the resets of the committed \<open>ethState\<close>, of the WAS
  and of the TxPool, all three to the root \<open>WAS.Commit\<close> returned, and the \<open>State\<close>
  still points to the same three objects. Each of the three then holds what its own reset
  to that root, against the store \<open>WAS.Commit\<close> has written, has made of it, and each of
  these resets has returned no error.
\<close>

theorem same_root:
  "(dbase w rootKey = Inr (b # bs) \<longrightarrow> startup_root d (dbase w) = BytesToHash d (b # bs)) \<and>
   (dbase w rootKey = Inr [] \<longrightarrow> startup_root d (dbase w) = zero_hash) \<and>
   (dbase w rootKey = Inl e \<longrightarrow> startup_root d (dbase w) = zero_hash) \<and>
   (InitState d w = (Inr s, w') \<longrightarrow>
      calls w' = calls w @
        [SdbNew (ethState s) (startup_root d (dbase w)),
         WasNew (was_ethState (was s)) (startup_root d (dbase w)),
         SdbCopy (ethState s) (pool_ethState (txPool s)),
         PoolNew (pool_ethState (txPool s))] \<and>
      sdb_New d (startup_root d (dbase w)) (dbase w) = Inr (heap w' (ethState s)) \<and>
      was_New d (dbase w) (startup_root d (dbase w)) =
        Inr (was_rest (was s), heap w' (was_ethState (was s))) \<and>
      heap w' (pool_ethState (txPool s)) = heap w' (ethState s) \<and>
      wf_State s w' \<and> separate s) \<and>
   (Commit d s w = ((root, None), s', w') \<longrightarrow>
      fst (WAS_Commit d (was s) w) = (root, None) \<and>
      calls w' =
        calls w @ [WasCommit, SdbReset (ethState s) root, WasReset root, PoolReset root] \<and>
      ethState s' = ethState s \<and>
      was_ethState (was s') = was_ethState (was s) \<and>
      pool_ethState (txPool s') = pool_ethState (txPool s)) \<and>
   (separate s \<and> Commit d s w = ((root, None), s', w') \<longrightarrow>
      (case was_Commit d (was_rest (was s)) (heap w (was_ethState (was s))) (dbase w) of
         (res, rest1, v1, db1) \<Rightarrow>
           res = (root, None) \<and> dbase w' = db1 \<and>
           sdb_Reset d (heap w (ethState s)) root db1 = (None, heap w' (ethState s')) \<and>
           was_Reset d rest1 v1 root db1 =
             (None, was_rest (was s'), heap w' (was_ethState (was s'))) \<and>
           pool_Reset d (pool_rest (txPool s)) (heap w (pool_ethState (txPool s))) root db1 =
             (None, pool_rest (txPool s'), heap w' (pool_ethState (txPool s')))))"
proof (intro conjI impI)
  show "startup_root d (dbase w) = BytesToHash d (b # bs)" if "dbase w rootKey = Inr (b # bs)"
    using that by (rule startup_root_cases)
  show "startup_root d (dbase w) = zero_hash" if "dbase w rootKey = Inr []"
    using that by (rule startup_root_cases)
  show "startup_root d (dbase w) = zero_hash" if "dbase w rootKey = Inl e"
    using that by (rule startup_root_cases)
next
  assume "InitState d w = (Inr s, w')"
  from InitState_Inr [OF this] obtain v rest u where
    n: "sdb_New d (startup_root d (dbase w)) (dbase w) = Inr v" and
    a: "was_New d (dbase w) (startup_root d (dbase w)) = Inr (rest, u)" and
    s: "s = \<lparr>ethState = nextref w,
          was = \<lparr>was_ethState = Suc (nextref w), was_rest = rest\<rparr>,
          txPool = \<lparr>pool_ethState = Suc (Suc (nextref w)), pool_rest = pool_New d\<rparr>\<rparr>" and
    w: "w' = \<lparr>heap = (heap w)(nextref w := v, Suc (nextref w) := u, Suc (Suc (nextref w)) := v),
           nextref = Suc (Suc (Suc (nextref w))),
           dbase = dbase w,
           calls = calls w @
             [SdbNew (nextref w) (startup_root d (dbase w)),
              WasNew (Suc (nextref w)) (startup_root d (dbase w)),
              SdbCopy (nextref w) (Suc (Suc (nextref w))),
              PoolNew (Suc (Suc (nextref w)))]\<rparr>"
    by blast
  show "calls w' = calls w @
        [SdbNew (ethState s) (startup_root d (dbase w)),
         WasNew (was_ethState (was s)) (startup_root d (dbase w)),
         SdbCopy (ethState s) (pool_ethState (txPool s)),
         PoolNew (pool_ethState (txPool s))]"
    by (simp add: s w)
  show "sdb_New d (startup_root d (dbase w)) (dbase w) = Inr (heap w' (ethState s))"
    by (simp add: s w n)
  show "was_New d (dbase w) (startup_root d (dbase w)) =
        Inr (was_rest (was s), heap w' (was_ethState (was s)))"
    by (simp add: s w a)
  show "heap w' (pool_ethState (txPool s)) = heap w' (ethState s)"
    by (simp add: s w)
  show "wf_State s w'"
    by (simp add: s w wf_State_def)
  show "separate s"
    by (simp add: s separate_def)
next
  assume "Commit d s w = ((root, None), s', w')"
  from Commit_success [OF this] obtain wa1 w1 w2 wa3 w3 p4 where
    h1: "WAS_Commit d (was s) w = ((root, None), wa1, w1)" and
    h2: "StateDB_Reset d (ethState s) root w1 = (None, w2)" and
    h3: "WAS_Reset d wa1 root w2 = (None, wa3, w3)" and
    h4: "TxPool_Reset d (txPool s) root w3 = (None, p4, w')" and
    s': "s' = s\<lparr>was := wa3, txPool := p4\<rparr>"
    by blast
  show "fst (WAS_Commit d (was s) w) = (root, None)" by (simp add: h1)
  show "calls w' =
        calls w @ [WasCommit, SdbReset (ethState s) root, WasReset root, PoolReset root]"
    using WAS_Commit_calls [OF h1] StateDB_Reset_calls [OF h2] WAS_Reset_calls [OF h3]
      TxPool_Reset_calls [OF h4] by simp
  show "ethState s' = ethState s" by (simp add: s')
  show "was_ethState (was s') = was_ethState (was s)"
    using WAS_Commit_ref [OF h1] WAS_Reset_ref [OF h3] by (simp add: s')
  show "pool_ethState (txPool s') = pool_ethState (txPool s)"
    using TxPool_Reset_ref [OF h4] by (simp add: s')
next
  assume h: "separate s \<and> Commit d s w = ((root, None), s', w')"
  then have c: "Commit d s w = ((root, None), s', w')" and sep: "separate s" by simp_all
  from Commit_success [OF c] obtain wa1 w1 w2 wa3 w3 p4 where
    h1: "WAS_Commit d (was s) w = ((root, None), wa1, w1)" and
    h3: "WAS_Reset d wa1 root w2 = (None, wa3, w3)" and
    h4: "TxPool_Reset d (txPool s) root w3 = (None, p4, w')" and
    s': "s' = s\<lparr>was := wa3, txPool := p4\<rparr>"
    by blast
  have r: "ethState s' = ethState s" "was_ethState (was s') = was_ethState (was s)"
    "pool_ethState (txPool s') = pool_ethState (txPool s)"
    using WAS_Commit_ref [OF h1] WAS_Reset_ref [OF h3] TxPool_Reset_ref [OF h4]
    by (simp_all add: s')
  from Commit_success_contents [OF sep c]
  show "case was_Commit d (was_rest (was s)) (heap w (was_ethState (was s))) (dbase w) of
         (res, rest1, v1, db1) \<Rightarrow>
           res = (root, None) \<and> dbase w' = db1 \<and>
           sdb_Reset d (heap w (ethState s)) root db1 = (None, heap w' (ethState s')) \<and>
           was_Reset d rest1 v1 root db1 =
             (None, was_rest (was s'), heap w' (was_ethState (was s'))) \<and>
           pool_Reset d (pool_rest (txPool s)) (heap w (pool_ethState (txPool s))) root db1 =
             (None, pool_rest (txPool s'), heap w' (pool_ethState (txPool s')))"
    by (simp add: r)
qed

theorem same_root_witness:
  "startup_root (demo no_faults) (dbase world1) = root_of 20 \<and>
   startup_root (demo no_faults) (dbase (world1\<lparr>dbase := store1(rootKey := Inr [])\<rparr>)) = zero_hash \<and>
   startup_root (demo no_faults) (dbase world2) = zero_hash \<and>
   calls (snd (InitState (demo no_faults) world1)) =
     [SdbNew 0 (root_of 20), WasNew 1 (root_of 20), SdbCopy 0 2, PoolNew 2] \<and>
   calls (snd (snd (Commit (demo no_faults) state0 world0))) =
     [WasCommit, SdbReset 0 (root_of 20), WasReset (root_of 20), PoolReset (root_of 20)] \<and>
   heap (snd (snd (Commit (demo no_faults) state0 world0))) 0 = 20 \<and>
   heap (snd (snd (Commit (demo no_faults) state0 world0))) 1 = 20 \<and>
   heap (snd (snd (Commit (demo no_faults) state0 world0))) 2 = 20"
proof -
  let ?d = "demo no_faults"
  let ?we = "world1\<lparr>dbase := store1(rootKey := Inr [])\<rparr>"
  define s1 where "s1 = \<lparr>ethState = 0, was = \<lparr>was_ethState = 1, was_rest = 0::nat\<rparr>,
    txPool = \<lparr>pool_ethState = 2, pool_rest = 0::nat\<rparr>\<rparr>"
  define i where "i = snd (InitState ?d world1)"
  define c where "c = snd (Commit ?d state0 world0)"
  have k1: "dbase world1 rootKey = Inr (0 # [0, 0, 0, 0, 0, 0, 0, 0, 0, 0, 0, 0, 0, 0, 0, 0, 0, 0, 0, 0, 0, 0, 0, 0, 0, 0, 0, 0, 0, 0, 20])"
    by (simp add: demo_simps)
  have k2: "dbase ?we rootKey = Inr []" by simp
  have k3: "dbase world2 rootKey = Inl ErrIO" by (simp add: world2_def store2_def)
  have hi: "InitState ?d world1 = (Inr s1, i)"
    by (simp add: i_def s1_def init_defs demo_simps)
  have hc: "Commit ?d state0 world0 = ((root_of 20, None), fst c, snd c)"
    by (simp add: c_def Commit_def step_defs demo_simps)
  have sep: "separate state0" by (simp add: separate_def state0_def)
  have b2h: "BytesToHash ?d (0 # [0, 0, 0, 0, 0, 0, 0, 0, 0, 0, 0, 0, 0, 0, 0, 0, 0, 0, 0, 0, 0, 0, 0, 0, 0, 0, 0, 0, 0, 0, 20]) = root_of 20"
    by (simp add: demo_simps)
  from same_root [where d = ?d and w = world1 and b = 0 and bs = "[0, 0, 0, 0, 0, 0, 0, 0, 0, 0, 0, 0, 0, 0, 0, 0, 0, 0, 0, 0, 0, 0, 0, 0, 0, 0, 0, 0, 0, 0, 20]"] k1
  have r1: "startup_root ?d (dbase world1) = BytesToHash ?d (0 # [0, 0, 0, 0, 0, 0, 0, 0, 0, 0, 0, 0, 0, 0, 0, 0, 0, 0, 0, 0, 0, 0, 0, 0, 0, 0, 0, 0, 0, 0, 20])"
    by blast
  from same_root [where d = ?d and w = ?we] k2
  have r2: "startup_root ?d (dbase ?we) = zero_hash" by blast
  from same_root [where d = ?d and w = world2 and e = ErrIO] k3
  have r3: "startup_root ?d (dbase world2) = zero_hash" by blast
  from same_root [where d = ?d and w = world1 and s = s1 and w' = i,
      THEN conjunct2, THEN conjunct2, THEN conjunct2, THEN conjunct1, THEN mp, OF hi]
  have a: "calls i = calls world1 @
        [SdbNew (ethState s1) (startup_root ?d (dbase world1)),
         WasNew (was_ethState (was s1)) (startup_root ?d (dbase world1)),
         SdbCopy (ethState s1) (pool_ethState (txPool s1)),
         PoolNew (pool_ethState (txPool s1))]"
    by (rule conjunct1)
  note cm = same_root [where d = ?d and w = world0 and s = state0 and root = "root_of 20"
      and s' = "fst c" and w' = "snd c",
      THEN conjunct2, THEN conjunct2, THEN conjunct2, THEN conjunct2]
  from cm [THEN conjunct1, THEN mp, OF hc]
  have b: "calls (snd c) = calls world0 @
      [WasCommit, SdbReset (ethState state0) (root_of 20), WasReset (root_of 20), PoolReset (root_of 20)]"
    and e1: "ethState (fst c) = ethState state0"
    and e2: "was_ethState (was (fst c)) = was_ethState (was state0)"
    and e3: "pool_ethState (txPool (fst c)) = pool_ethState (txPool state0)"
    by simp_all
  from cm [THEN conjunct2, THEN mp, OF conjI [OF sep hc]]
  have g: "case was_Commit ?d (was_rest (was state0)) (heap world0 (was_ethState (was state0)))
                (dbase world0) of
         (res, rest1, v1, db1) \<Rightarrow>
           res = (root_of 20, None) \<and> dbase (snd c) = db1 \<and>
           sdb_Reset ?d (heap world0 (ethState state0)) (root_of 20) db1 =
             (None, heap (snd c) (ethState (fst c))) \<and>
           was_Reset ?d rest1 v1 (root_of 20) db1 =
             (None, was_rest (was (fst c)), heap (snd c) (was_ethState (was (fst c)))) \<and>
           pool_Reset ?d (pool_rest (txPool state0)) (heap world0 (pool_ethState (txPool state0)))
               (root_of 20) db1 =
             (None, pool_rest (txPool (fst c)), heap (snd c) (pool_ethState (txPool (fst c))))"
    .
  have x: "ethState state0 = 0" "was_ethState (was state0) = 1" "pool_ethState (txPool state0) = 2"
    by (simp_all add: state0_def)
  from g have G: "heap (snd c) 0 = 20 \<and> heap (snd c) 1 = 20 \<and> heap (snd c) 2 = 20"
    unfolding e1 e2 e3 x by (simp add: demo_simps)
  have "calls i = [SdbNew 0 (root_of 20), WasNew 1 (root_of 20), SdbCopy 0 2, PoolNew 2]"
    unfolding a r1 b2h by (simp add: s1_def world1_def)
  moreover have "calls (snd c) =
      [WasCommit, SdbReset 0 (root_of 20), WasReset (root_of 20), PoolReset (root_of 20)]"
    unfolding b by (simp add: state0_def world0_def)
  ultimately show ?thesis
    using G r1 r2 r3 by (simp add: i_def c_def b2h)
qed

text \<open>
  C2 as stated fails at startup: on the store that holds a root but whose read of the
  root key fails, the key is not absent, and \<open>InitState\<close> creates the three states from
  the zero hash and returns no error.
\<close>

theorem InitState_unreadable_root_counterexample:
  "store1 rootKey = Inr (root_of 20) \<and>
   dbase world2 rootKey = Inl ErrIO \<and>
   \<not> absent (dbase world2) rootKey \<and>
   fst (InitState (demo no_faults) world2) =
     Inr \<lparr>ethState = 0, was = \<lparr>was_ethState = 1, was_rest = 0\<rparr>,
          txPool = \<lparr>pool_ethState = 2, pool_rest = 0\<rparr>\<rparr> \<and>
   calls (snd (InitState (demo no_faults) world2)) =
     [SdbNew 0 zero_hash, WasNew 1 zero_hash, SdbCopy 0 2, PoolNew 2]"
  by (simp add: init_defs absent_def demo_simps)

section \<open>Call\<close>

text \<open>
  C4, as the code has it. \<open>Call\<close> executes the message on a copy of the \<open>ethState\<close> of
  the Write-Ahead State: its result is the result of \<open>core.ApplyMessage\<close> on the content
  of that object, with the gas limit of the package and the origin and gas price of the
  message, and the two calls it makes are the copy of the WAS's \<open>ethState\<close> and the
  execution on the copy.
\<close>

theorem Call_on_WAS_copy:
  "fst (Call d s m w) =
     (case fst (core_ApplyMessage d \<lparr>Origin = msg_From d m, GasPrice = msg_GasPrice d m\<rparr> m gasLimit
                 (heap w (was_ethState (was s)))) of
        (res, Some err) \<Rightarrow> Inl err
      | (res, None) \<Rightarrow> Inr res) \<and>
   calls (snd (Call d s m w)) =
     calls w @
       [SdbCopy (was_ethState (was s)) (nextref w),
        ApplyMsg (nextref w) \<lparr>Origin = msg_From d m, GasPrice = msg_GasPrice d m\<rparr> m gasLimit]"
  by (auto simp: Call_def Let_def StateDB_Copy_def ApplyMessage_def alloc_def called_def
      split: prod.splits option.splits)


text \<open>
  C4 as stated fails: where the WAS shows the amount 20 and the Committed State the
  amount 10, \<open>Call\<close> answers from the WAS, and the execution on the Committed State
  would have answered otherwise.
\<close>

theorem Call_on_committed_counterexample:
  "fst (Call (demo no_faults) state0 [] world0) = Inr [20] \<and>
   fst (core_ApplyMessage (demo no_faults)
          \<lparr>Origin = msg_From (demo no_faults) [], GasPrice = msg_GasPrice (demo no_faults) []\<rparr>
          [] gasLimit (heap world0 (ethState state0))) = ([10], None) \<and>
   GetBalance (demo no_faults) state0 [] world0 = 10"
  by (simp add: Call_def StateDB_Copy_def ApplyMessage_def alloc_def called_def GetBalance_def
      demo_simps)


text \<open>
  C5. \<open>Call\<close> writes to the copy it has made and to nothing else: every object that
  existed before the call has the content it had, the WAS's \<open>ethState\<close> among them, the
  durable store is the same, and \<open>GetBalance\<close>, \<open>GetNonce\<close> and \<open>GetPoolNonce\<close> answer
  as before at every address. \<open>Call\<close> assigns no field of the \<open>State\<close>.
\<close>

theorem Call_frame:
  assumes "wf_State s w"
  shows "(\<forall>r<nextref w. heap (snd (Call d s m w)) r = heap w r) \<and>
     dbase (snd (Call d s m w)) = dbase w \<and>
     heap (snd (Call d s m w)) (was_ethState (was s)) = heap w (was_ethState (was s)) \<and>
     (\<forall>a. GetBalance d s a (snd (Call d s m w)) = GetBalance d s a w \<and>
          GetNonce d s a (snd (Call d s m w)) = GetNonce d s a w \<and>
          GetPoolNonce d s a (snd (Call d s m w)) = GetPoolNonce d s a w)"
  using assms
  by (simp add: Call_world wf_State_def GetBalance_def GetNonce_def GetPoolNonce_def)

theorem Call_frame_witness:
  "wf_State state0 world0 \<and>
   (\<forall>a. GetBalance (demo no_faults) state0 a (snd (Call (demo no_faults) state0 [] world0)) = 10 \<and>
        GetNonce (demo no_faults) state0 a (snd (Call (demo no_faults) state0 [] world0)) = 0 \<and>
        GetPoolNonce (demo no_faults) state0 a (snd (Call (demo no_faults) state0 [] world0)) = 0) \<and>
   heap (snd (Call (demo no_faults) state0 [] world0)) (was_ethState (was state0)) = 20"
proof -
  have h: "wf_State state0 world0" by (simp add: wf_State_def state0_def world0_def)
  have v: "GetBalance (demo no_faults) state0 a world0 = 10"
     "GetNonce (demo no_faults) state0 a world0 = 0"
     "GetPoolNonce (demo no_faults) state0 a world0 = 0"
     "heap world0 (was_ethState (was state0)) = 20" for a
    by (simp_all add: GetBalance_def GetNonce_def GetPoolNonce_def demo_simps)
  from Call_frame [OF h, of "demo no_faults" "[]"] h show ?thesis
    by (simp add: v)
qed


section \<open>ApplyTransaction\<close>

text \<open>
  C6. When decoding the bytes fails, \<open>ApplyTransaction\<close> returns the decoder's error and
  leaves the \<open>State\<close> and the world as they were: nothing is applied to the WAS. When
  decoding succeeds, it calls the WAS's \<open>ApplyTransaction\<close> once, with the decoded
  transaction, the index and the block hash it was given, and returns what that returns.
\<close>

theorem ApplyTransaction_decodes_then_forwards:
  "(rlp_Decode_tx d txBytes = Inl err \<longrightarrow>
      ApplyTransaction d s txBytes txIndex blockHash w = (Some err, s, w)) \<and>
   (rlp_Decode_tx d txBytes = Inr t \<longrightarrow>
      ApplyTransaction d s txBytes txIndex blockHash w =
        (case WAS_ApplyTransaction d (was s) t txIndex blockHash w of
           (e, wa, w1) \<Rightarrow> (e, s\<lparr>was := wa\<rparr>, w1)) \<and>
      fst (ApplyTransaction d s txBytes txIndex blockHash w) =
        fst (was_ApplyTransaction d (was_rest (was s)) (heap w (was_ethState (was s)))
               t txIndex blockHash) \<and>
      calls (snd (snd (ApplyTransaction d s txBytes txIndex blockHash w))) =
        calls w @ [WasApplyTransaction t txIndex blockHash])"
  by (auto simp: ApplyTransaction_def WAS_ApplyTransaction_def called_def split: prod.splits)

theorem ApplyTransaction_decodes_then_forwards_witness:
  "ApplyTransaction (demo no_faults) state0 [] 0 zero_hash world0 = (Some ErrDecode, state0, world0) \<and>
   fst (ApplyTransaction (demo no_faults) state0 [1, 2] 3 tx_hash world0) = None \<and>
   calls (snd (snd (ApplyTransaction (demo no_faults) state0 [1, 2] 3 tx_hash world0))) =
     [WasApplyTransaction [1, 2] 3 tx_hash]"
proof -
  let ?d = "demo no_faults"
  have a: "rlp_Decode_tx ?d [] = Inl ErrDecode" by (simp add: demo_def)
  have b: "rlp_Decode_tx ?d [1, 2] = Inr [1, 2]" by (simp add: demo_def)
  have c: "fst (was_ApplyTransaction ?d (was_rest (was state0)) (heap world0 (was_ethState (was state0)))
               [1, 2] 3 tx_hash) = None" by (simp add: demo_def)
  from ApplyTransaction_decodes_then_forwards
         [where d = ?d and txBytes = "[]" and err = ErrDecode and s = state0 and w = world0
            and txIndex = 0 and blockHash = zero_hash] a
  have A: "ApplyTransaction ?d state0 [] 0 zero_hash world0 = (Some ErrDecode, state0, world0)"
    by blast
  from ApplyTransaction_decodes_then_forwards
         [where d = ?d and txBytes = "[1, 2]" and t = "[1, 2]" and s = state0 and w = world0
            and txIndex = 3 and blockHash = tx_hash] b
  have B: "fst (ApplyTransaction ?d state0 [1, 2] 3 tx_hash world0) =
        fst (was_ApplyTransaction ?d (was_rest (was state0)) (heap world0 (was_ethState (was state0)))
               [1, 2] 3 tx_hash)"
    and C: "calls (snd (snd (ApplyTransaction ?d state0 [1, 2] 3 tx_hash world0))) =
        calls world0 @ [WasApplyTransaction [1, 2] 3 tx_hash]"
    by blast+
  show ?thesis using A B C c by (simp add: world0_def)
qed

section \<open>Errors of the store and of the collaborators\<close>

text \<open>
  C7, as the code has it. The errors of \<open>getFdLimit\<close> and of opening the store are
  returned by \<open>NewState\<close>; the errors of creating the \<open>ethState\<close> and the WAS are
  returned by \<open>InitState\<close>; the error of \<open>WAS.Commit\<close> and of each reset is returned by
  \<open>Commit\<close>; the error of the read and of the decoder is returned by \<open>GetTransaction\<close>
  and \<open>GetReceipt\<close>. The error of the read of the root key in \<open>InitState\<close> is not
  returned: \<open>InitState\<close> then goes on from the zero hash, and its result does not depend
  on that error.
\<close>

theorem errors_returned:
  "(getFdLimit d = Inl e \<longrightarrow> NewState d dbFile dbCache w = (Inl e, w)) \<and>
   (getFdLimit d = Inr handles \<and> NewLDBDatabase d dbFile dbCache handles = Inl e \<longrightarrow>
      NewState d dbFile dbCache w = (Inl e, w)) \<and>
   (sdb_New d (startup_root d (dbase w)) (dbase w) = Inl e \<longrightarrow> fst (InitState d w) = Inl e) \<and>
   (sdb_New d (startup_root d (dbase w)) (dbase w) = Inr v \<and>
    was_New d (dbase w) (startup_root d (dbase w)) = Inl e \<longrightarrow> fst (InitState d w) = Inl e) \<and>
   (dbase w rootKey = Inl e \<longrightarrow>
      fst (InitState d w) =
        (case sdb_New d zero_hash (dbase w) of
           Inl e' \<Rightarrow> Inl e'
         | Inr v \<Rightarrow>
             (case was_New d (dbase w) zero_hash of
                Inl e' \<Rightarrow> Inl e'
              | Inr (rest, u) \<Rightarrow>
                  Inr \<lparr>ethState = nextref w,
                       was = \<lparr>was_ethState = Suc (nextref w), was_rest = rest\<rparr>,
                       txPool = \<lparr>pool_ethState = Suc (Suc (nextref w)),
                                 pool_rest = pool_New d\<rparr>\<rparr>))) \<and>
   (snd (fst (WAS_Commit d (was s) w)) = Some e \<longrightarrow> snd (fst (Commit d s w)) = Some e) \<and>
   (WAS_Commit d (was s) w = ((root, None), wa1, w1) \<and>
    fst (StateDB_Reset d (ethState s) root w1) = Some e \<longrightarrow> snd (fst (Commit d s w)) = Some e) \<and>
   (WAS_Commit d (was s) w = ((root, None), wa1, w1) \<and>
    StateDB_Reset d (ethState s) root w1 = (None, w2) \<and>
    fst (WAS_Reset d wa1 root w2) = Some e \<longrightarrow> snd (fst (Commit d s w)) = Some e) \<and>
   (WAS_Commit d (was s) w = ((root, None), wa1, w1) \<and>
    StateDB_Reset d (ethState s) root w1 = (None, w2) \<and>
    WAS_Reset d wa1 root w2 = (None, wa3, w3) \<and>
    fst (TxPool_Reset d (txPool s) root w3) = Some e \<longrightarrow> snd (fst (Commit d s w)) = Some e) \<and>
   (dbase w h = Inl e \<longrightarrow> GetTransaction d h w = Inl e) \<and>
   (dbase w h = Inr data \<and> rlp_DecodeBytes_tx d data = Inl e \<longrightarrow> GetTransaction d h w = Inl e) \<and>
   (dbase w (receiptsPrefix @ h) = Inl e \<longrightarrow> GetReceipt d h w = Inl e) \<and>
   (dbase w (receiptsPrefix @ h) = Inr data \<and> rlp_DecodeBytes_receipt d data = Inl e \<longrightarrow>
      GetReceipt d h w = Inl e)"
proof (intro conjI impI)
  show "NewState d dbFile dbCache w = (Inl e, w)" if "getFdLimit d = Inl e"
    using that by (simp add: NewState_def)
  show "NewState d dbFile dbCache w = (Inl e, w)"
    if "getFdLimit d = Inr handles \<and> NewLDBDatabase d dbFile dbCache handles = Inl e"
    using that by (simp add: NewState_def)
  show "fst (InitState d w) = Inl e" if "sdb_New d (startup_root d (dbase w)) (dbase w) = Inl e"
    using that by (simp add: InitState_result)
  show "fst (InitState d w) = Inl e"
    if "sdb_New d (startup_root d (dbase w)) (dbase w) = Inr v \<and>
        was_New d (dbase w) (startup_root d (dbase w)) = Inl e"
    using that by (simp add: InitState_result)
  show "fst (InitState d w) =
        (case sdb_New d zero_hash (dbase w) of
           Inl e' \<Rightarrow> Inl e'
         | Inr v \<Rightarrow>
             (case was_New d (dbase w) zero_hash of
                Inl e' \<Rightarrow> Inl e'
              | Inr (rest, u) \<Rightarrow>
                  Inr \<lparr>ethState = nextref w,
                       was = \<lparr>was_ethState = Suc (nextref w), was_rest = rest\<rparr>,
                       txPool = \<lparr>pool_ethState = Suc (Suc (nextref w)),
                                 pool_rest = pool_New d\<rparr>\<rparr>))"
    if "dbase w rootKey = Inl e"
    unfolding InitState_result startup_root_unread [OF that] by (rule refl)
  show "snd (fst (Commit d s w)) = Some e" if "snd (fst (WAS_Commit d (was s) w)) = Some e"
    using that by (rule Commit_error_cases(1))
  show "snd (fst (Commit d s w)) = Some e"
    if "WAS_Commit d (was s) w = ((root, None), wa1, w1) \<and>
        fst (StateDB_Reset d (ethState s) root w1) = Some e"
    using that Commit_error_cases(2) by blast
  show "snd (fst (Commit d s w)) = Some e"
    if "WAS_Commit d (was s) w = ((root, None), wa1, w1) \<and>
        StateDB_Reset d (ethState s) root w1 = (None, w2) \<and>
        fst (WAS_Reset d wa1 root w2) = Some e"
    using that Commit_error_cases(3) by blast
  show "snd (fst (Commit d s w)) = Some e"
    if "WAS_Commit d (was s) w = ((root, None), wa1, w1) \<and>
        StateDB_Reset d (ethState s) root w1 = (None, w2) \<and>
        WAS_Reset d wa1 root w2 = (None, wa3, w3) \<and>
        fst (TxPool_Reset d (txPool s) root w3) = Some e"
    using that Commit_error_cases(4) by blast
  show "GetTransaction d h w = Inl e" if "dbase w h = Inl e"
    using that by (simp add: GetTransaction_def)
  show "GetTransaction d h w = Inl e" if "dbase w h = Inr data \<and> rlp_DecodeBytes_tx d data = Inl e"
    using that by (simp add: GetTransaction_def)
  show "GetReceipt d h w = Inl e" if "dbase w (receiptsPrefix @ h) = Inl e"
    using that by (simp add: GetReceipt_def)
  show "GetReceipt d h w = Inl e"
    if "dbase w (receiptsPrefix @ h) = Inr data \<and> rlp_DecodeBytes_receipt d data = Inl e"
    using that by (simp add: GetReceipt_def)
qed

theorem errors_returned_witness:
  "NewState ((demo no_faults)\<lparr>getFdLimit := Inl ErrResource\<rparr>) ''chaindata'' 16 world0 =
     (Inl ErrResource, world0) \<and>
   NewState ((demo no_faults)\<lparr>NewLDBDatabase := \<lambda>file cache handles. Inl ErrResource\<rparr>)
     ''chaindata'' 16 world0 = (Inl ErrResource, world0) \<and>
   fst (InitState ((demo no_faults)\<lparr>sdb_New := \<lambda>root db. Inl ErrMissingNode\<rparr>) world1) =
     Inl ErrMissingNode \<and>
   fst (InitState ((demo no_faults)\<lparr>was_New := \<lambda>db root. Inl ErrMissingNode\<rparr>) world1) =
     Inl ErrMissingNode \<and>
   fst (InitState (demo no_faults) world_broken) =
     Inr \<lparr>ethState = 0, was = \<lparr>was_ethState = 1, was_rest = 0\<rparr>,
          txPool = \<lparr>pool_ethState = 2, pool_rest = 0\<rparr>\<rparr> \<and>
   snd (fst (Commit (demo (no_faults\<lparr>commit_err := Some ErrIO\<rparr>)) state0 world0)) = Some ErrIO \<and>
   snd (fst (Commit (demo (no_faults\<lparr>sdb_reset_err := Some ErrMissingNode\<rparr>)) state0 world0)) =
     Some ErrMissingNode \<and>
   snd (fst (Commit (demo (no_faults\<lparr>was_reset_err := Some ErrMissingNode\<rparr>)) state0 world0)) =
     Some ErrMissingNode \<and>
   snd (fst (Commit (demo (no_faults\<lparr>pool_reset_err := Some ErrMissingNode\<rparr>)) state0 world0)) =
     Some ErrMissingNode \<and>
   GetTransaction (demo no_faults) tx_hash world_broken = Inl ErrIO \<and>
   GetTransaction (demo no_faults) bad_hash world1 = Inl ErrDecode \<and>
   GetReceipt (demo no_faults) tx_hash world_broken = Inl ErrIO \<and>
   GetReceipt (demo no_faults) bad_hash world1 = Inl ErrDecode"
proof -
  let ?d = "demo no_faults"
  let ?r = "root_of 20"
  let ?d1 = "?d\<lparr>getFdLimit := Inl ErrResource\<rparr>"
  let ?d2 = "?d\<lparr>NewLDBDatabase := \<lambda>file cache handles. Inl ErrResource\<rparr>"
  let ?d3 = "?d\<lparr>sdb_New := \<lambda>root db. Inl ErrMissingNode\<rparr>"
  let ?d4 = "?d\<lparr>was_New := \<lambda>db root. Inl ErrMissingNode\<rparr>"
  let ?k = "demo (no_faults\<lparr>commit_err := Some ErrIO\<rparr>)"
  let ?a = "demo (no_faults\<lparr>sdb_reset_err := Some ErrMissingNode\<rparr>)"
  let ?b = "demo (no_faults\<lparr>was_reset_err := Some ErrMissingNode\<rparr>)"
  let ?c = "demo (no_faults\<lparr>pool_reset_err := Some ErrMissingNode\<rparr>)"
  have h1: "getFdLimit ?d1 = Inl ErrResource" by simp
  have h2: "getFdLimit ?d2 = Inr 1024 \<and> NewLDBDatabase ?d2 ''chaindata'' 16 1024 = Inl ErrResource"
    by (simp add: demo_def)
  have h3: "sdb_New ?d3 (startup_root ?d3 (dbase world1)) (dbase world1) = Inl ErrMissingNode"
    by simp
  have h4: "sdb_New ?d4 (startup_root ?d4 (dbase world1)) (dbase world1) = Inr 20 \<and>
      was_New ?d4 (dbase world1) (startup_root ?d4 (dbase world1)) = Inl ErrMissingNode"
    by (simp add: startup_root_def demo_simps)
  have h5: "dbase world_broken rootKey = Inl ErrIO"
    by (simp add: world_broken_def broken_db_def)
  have h6: "snd (fst (WAS_Commit ?k (was state0) world0)) = Some ErrIO"
    by (simp add: step_defs demo_simps)
  define a1 where "a1 = snd (WAS_Commit ?a (was state0) world0)"
  have ha1: "WAS_Commit ?a (was state0) world0 = ((?r, None), fst a1, snd a1)"
    by (simp add: a1_def step_defs demo_simps)
  have ha2: "fst (StateDB_Reset ?a (ethState state0) ?r (snd a1)) = Some ErrMissingNode"
    by (simp add: a1_def step_defs demo_simps)
  define b1 where "b1 = snd (WAS_Commit ?b (was state0) world0)"
  define b2 where "b2 = snd (StateDB_Reset ?b (ethState state0) ?r (snd b1))"
  have hb1: "WAS_Commit ?b (was state0) world0 = ((?r, None), fst b1, snd b1)"
    by (simp add: b1_def step_defs demo_simps)
  have hb2: "StateDB_Reset ?b (ethState state0) ?r (snd b1) = (None, b2)"
    by (simp add: b2_def b1_def step_defs demo_simps)
  have hb3: "fst (WAS_Reset ?b (fst b1) ?r b2) = Some ErrMissingNode"
    by (simp add: b2_def b1_def step_defs demo_simps)
  define c1 where "c1 = snd (WAS_Commit ?c (was state0) world0)"
  define c2 where "c2 = snd (StateDB_Reset ?c (ethState state0) ?r (snd c1))"
  define c3 where "c3 = snd (WAS_Reset ?c (fst c1) ?r c2)"
  have hc1: "WAS_Commit ?c (was state0) world0 = ((?r, None), fst c1, snd c1)"
    by (simp add: c1_def step_defs demo_simps)
  have hc2: "StateDB_Reset ?c (ethState state0) ?r (snd c1) = (None, c2)"
    by (simp add: c2_def c1_def step_defs demo_simps)
  have hc3: "WAS_Reset ?c (fst c1) ?r c2 = (None, fst c3, snd c3)"
    by (simp add: c3_def c2_def c1_def step_defs demo_simps)
  have hc4: "fst (TxPool_Reset ?c (txPool state0) ?r (snd c3)) = Some ErrMissingNode"
    by (simp add: c3_def c2_def c1_def step_defs demo_simps)
  have h10: "dbase world_broken tx_hash = Inl ErrIO"
    by (simp add: world_broken_def broken_db_def)
  have h11: "dbase world1 bad_hash = Inr [] \<and> rlp_DecodeBytes_tx ?d [] = Inl ErrDecode"
    by (simp add: demo_simps)
  have h12: "dbase world_broken (receiptsPrefix @ tx_hash) = Inl ErrIO"
    by (simp add: world_broken_def broken_db_def)
  have h13: "dbase world1 (receiptsPrefix @ bad_hash) = Inr [] \<and>
      rlp_DecodeBytes_receipt ?d [] = Inl ErrDecode"
    by (simp add: demo_simps)
  from errors_returned [where d = ?d1 and e = ErrResource and dbFile = "''chaindata''"
      and dbCache = 16 and w = world0] h1
  have A1: "NewState ?d1 ''chaindata'' 16 world0 = (Inl ErrResource, world0)" by blast
  from errors_returned [where d = ?d2 and e = ErrResource and dbFile = "''chaindata''"
      and dbCache = 16 and handles = 1024 and w = world0] h2
  have A2: "NewState ?d2 ''chaindata'' 16 world0 = (Inl ErrResource, world0)" by blast
  from errors_returned [where d = ?d3 and e = ErrMissingNode and w = world1] h3
  have A3: "fst (InitState ?d3 world1) = Inl ErrMissingNode" by blast
  from errors_returned [where d = ?d4 and e = ErrMissingNode and w = world1 and v = 20] h4
  have A4: "fst (InitState ?d4 world1) = Inl ErrMissingNode" by blast
  from errors_returned [where d = ?d and e = ErrIO and w = world_broken] h5
  have A5: "fst (InitState ?d world_broken) =
        (case sdb_New ?d zero_hash (dbase world_broken) of
           Inl e' \<Rightarrow> Inl e'
         | Inr v \<Rightarrow>
             (case was_New ?d (dbase world_broken) zero_hash of
                Inl e' \<Rightarrow> Inl e'
              | Inr (rest, u) \<Rightarrow>
                  Inr \<lparr>ethState = nextref world_broken,
                       was = \<lparr>was_ethState = Suc (nextref world_broken), was_rest = rest\<rparr>,
                       txPool = \<lparr>pool_ethState = Suc (Suc (nextref world_broken)),
                                 pool_rest = pool_New ?d\<rparr>\<rparr>))"
    by blast
  from errors_returned [where d = ?k and e = ErrIO and s = state0 and w = world0] h6
  have A6: "snd (fst (Commit ?k state0 world0)) = Some ErrIO" by blast
  from errors_returned [where d = ?a and e = ErrMissingNode and s = state0 and w = world0
      and root = ?r and ?wa1.0 = "fst a1" and ?w1.0 = "snd a1"] ha1 ha2
  have A7: "snd (fst (Commit ?a state0 world0)) = Some ErrMissingNode" by blast
  from errors_returned [where d = ?b and e = ErrMissingNode and s = state0 and w = world0
      and root = ?r and ?wa1.0 = "fst b1" and ?w1.0 = "snd b1" and ?w2.0 = b2] hb1 hb2 hb3
  have A8: "snd (fst (Commit ?b state0 world0)) = Some ErrMissingNode" by blast
  from errors_returned [where d = ?c and e = ErrMissingNode and s = state0 and w = world0
      and root = ?r and ?wa1.0 = "fst c1" and ?w1.0 = "snd c1" and ?w2.0 = c2
      and ?wa3.0 = "fst c3" and ?w3.0 = "snd c3"] hc1 hc2 hc3 hc4
  have A9: "snd (fst (Commit ?c state0 world0)) = Some ErrMissingNode" by blast
  from errors_returned [where d = ?d and e = ErrIO and w = world_broken and h = tx_hash] h10 h12
  have A10: "GetTransaction ?d tx_hash world_broken = Inl ErrIO"
    and A12: "GetReceipt ?d tx_hash world_broken = Inl ErrIO" by blast+
  from errors_returned [where d = ?d and e = ErrDecode and w = world1 and h = bad_hash
      and data = "[]"] h11 h13
  have A11: "GetTransaction ?d bad_hash world1 = Inl ErrDecode"
    and A13: "GetReceipt ?d bad_hash world1 = Inl ErrDecode" by blast+
  have A5': "fst (InitState ?d world_broken) =
     Inr \<lparr>ethState = 0, was = \<lparr>was_ethState = 1, was_rest = 0\<rparr>,
          txPool = \<lparr>pool_ethState = 2, pool_rest = 0\<rparr>\<rparr>"
    unfolding A5 by (simp add: world_broken_def demo_simps)
  show ?thesis
    using A1 A2 A3 A4 A5' A6 A7 A8 A9 A10 A11 A12 A13 by blast
qed


text \<open>
  C7 as stated fails: on a store whose read of the root key fails, \<open>InitState\<close> returns
  a \<open>State\<close> and no error.
\<close>

theorem InitState_read_error_counterexample:
  "dbase world_broken rootKey = Inl ErrIO \<and>
   fst (InitState (demo no_faults) world_broken) =
     Inr \<lparr>ethState = 0, was = \<lparr>was_ethState = 1, was_rest = 0\<rparr>,
          txPool = \<lparr>pool_ethState = 2, pool_rest = 0\<rparr>\<rparr>"
  by (simp add: init_defs world_broken_def broken_db_def demo_simps)


section \<open>Lookups in the durable store\<close>

text \<open>
  C8, as the code has it. \<open>GetTransaction\<close> reads the store at the hash and
  \<open>GetReceipt\<close> at the hash prefixed with \<open>receipts-\<close>. Each returns an error exactly
  when the read of that key fails or the bytes read do not decode, and returns the
  decoded transaction or receipt otherwise. The read fails when the key is absent, and
  the error is then the store's not-found error; it also fails with any other error of
  the store, and that error is returned as it is.
\<close>

theorem lookups:
  "(isl (GetTransaction d h w) \<longleftrightarrow>
      read_fails (dbase w) h \<or> (\<exists>data. dbase w h = Inr data \<and> isl (rlp_DecodeBytes_tx d data))) \<and>
   (absent (dbase w) h \<longrightarrow> read_fails (dbase w) h \<and> GetTransaction d h w = Inl ErrNotFound) \<and>
   (dbase w h = Inl e \<longrightarrow> read_fails (dbase w) h \<and> GetTransaction d h w = Inl e) \<and>
   (dbase w h = Inr data \<and> rlp_DecodeBytes_tx d data = Inl e \<longrightarrow> GetTransaction d h w = Inl e) \<and>
   (dbase w h = Inr data \<and> rlp_DecodeBytes_tx d data = Inr t \<longrightarrow> GetTransaction d h w = Inr t) \<and>
   (isl (GetReceipt d h w) \<longleftrightarrow>
      read_fails (dbase w) (receiptsPrefix @ h) \<or>
      (\<exists>data. dbase w (receiptsPrefix @ h) = Inr data \<and> isl (rlp_DecodeBytes_receipt d data))) \<and>
   (absent (dbase w) (receiptsPrefix @ h) \<longrightarrow>
      read_fails (dbase w) (receiptsPrefix @ h) \<and> GetReceipt d h w = Inl ErrNotFound) \<and>
   (dbase w (receiptsPrefix @ h) = Inl e \<longrightarrow>
      read_fails (dbase w) (receiptsPrefix @ h) \<and> GetReceipt d h w = Inl e) \<and>
   (dbase w (receiptsPrefix @ h) = Inr data' \<and> rlp_DecodeBytes_receipt d data' = Inl e \<longrightarrow>
      GetReceipt d h w = Inl e) \<and>
   (dbase w (receiptsPrefix @ h) = Inr data' \<and> rlp_DecodeBytes_receipt d data' = Inr rc \<longrightarrow>
      GetReceipt d h w = Inr rc) \<and>
   receiptsPrefix = bytes_of_string ''receipts-''"
  by (auto simp: GetTransaction_def GetReceipt_def absent_def read_fails_def receiptsPrefix_def
      split: sum.splits)

theorem lookups_witness:
  "GetTransaction (demo no_faults) tx_hash world1 = Inr [1, 2, 3] \<and>
   GetReceipt (demo no_faults) tx_hash world1 = Inr [4, 5] \<and>
   GetTransaction (demo no_faults) zero_hash world1 = Inl ErrNotFound \<and>
   GetReceipt (demo no_faults) zero_hash world1 = Inl ErrNotFound \<and>
   GetTransaction (demo no_faults) tx_hash world_broken = Inl ErrIO \<and>
   GetReceipt (demo no_faults) tx_hash world_broken = Inl ErrIO \<and>
   GetTransaction (demo no_faults) bad_hash world1 = Inl ErrDecode \<and>
   GetReceipt (demo no_faults) bad_hash world1 = Inl ErrDecode"
proof -
  let ?d = "demo no_faults"
  have a: "dbase world1 tx_hash = Inr [1, 2, 3] \<and> rlp_DecodeBytes_tx ?d [1, 2, 3] = Inr [1, 2, 3]"
    by (simp add: demo_simps)
  have b: "dbase world1 (receiptsPrefix @ tx_hash) = Inr [4, 5] \<and>
      rlp_DecodeBytes_receipt ?d [4, 5] = Inr [4, 5]"
    by (simp add: demo_simps)
  have c: "absent (dbase world1) zero_hash" "absent (dbase world1) (receiptsPrefix @ zero_hash)"
    by (simp_all add: absent_def demo_simps)
  have f: "dbase world_broken tx_hash = Inl ErrIO"
    "dbase world_broken (receiptsPrefix @ tx_hash) = Inl ErrIO"
    by (simp_all add: world_broken_def broken_db_def)
  have g: "dbase world1 bad_hash = Inr [] \<and> rlp_DecodeBytes_tx ?d [] = Inl ErrDecode"
    "dbase world1 (receiptsPrefix @ bad_hash) = Inr [] \<and>
      rlp_DecodeBytes_receipt ?d [] = Inl ErrDecode"
    by (simp_all add: demo_simps)
  from lookups [where d = ?d and w = world1 and h = tx_hash and data = "[1, 2, 3]"
      and t = "[1, 2, 3]" and data' = "[4, 5]" and rc = "[4, 5]"] a b
  have A: "GetTransaction ?d tx_hash world1 = Inr [1, 2, 3]"
    and B: "GetReceipt ?d tx_hash world1 = Inr [4, 5]"
    by blast+
  from lookups [where d = ?d and w = world1 and h = zero_hash] c
  have C: "GetTransaction ?d zero_hash world1 = Inl ErrNotFound"
    and D: "GetReceipt ?d zero_hash world1 = Inl ErrNotFound"
    by blast+
  from lookups [where d = ?d and w = world_broken and h = tx_hash and e = ErrIO] f
  have E: "GetTransaction ?d tx_hash world_broken = Inl ErrIO"
    and F: "GetReceipt ?d tx_hash world_broken = Inl ErrIO"
    by blast+
  from lookups [where d = ?d and w = world1 and h = bad_hash and e = ErrDecode
      and data = "[]" and data' = "[]"] g
  have G: "GetTransaction ?d bad_hash world1 = Inl ErrDecode"
    and H: "GetReceipt ?d bad_hash world1 = Inl ErrDecode"
    by blast+
  from A B C D E F G H show ?thesis by blast
qed

text \<open>
  C8 as stated fails: on a store whose reads fail with an input/output error, the key is
  not absent and no bytes have been read that could fail to decode, and both lookups
  return that error.
\<close>

theorem lookups_read_failure_counterexample:
  "dbase world_broken tx_hash = Inl ErrIO \<and>
   \<not> absent (dbase world_broken) tx_hash \<and>
   GetTransaction (demo no_faults) tx_hash world_broken = Inl ErrIO \<and>
   dbase world_broken (receiptsPrefix @ tx_hash) = Inl ErrIO \<and>
   \<not> absent (dbase world_broken) (receiptsPrefix @ tx_hash) \<and>
   GetReceipt (demo no_faults) tx_hash world_broken = Inl ErrIO"
  by (simp add: GetTransaction_def GetReceipt_def absent_def world_broken_def broken_db_def)

section \<open>CreateAccounts\<close>

text \<open>
  C9, as the code has it. For every account map whose balances all parse,
  \<open>CreateAccounts\<close> seeds the accounts into the \<open>ethState\<close> of the WAS, in the order of
  the map and for each account its balance, then its code, then each storage entry,
  touching no other object and not the store; it then calls \<open>Commit\<close> on the world so
  reached and returns the error of \<open>Commit\<close>.
\<close>

theorem CreateAccounts_seeds_then_commits:
  assumes "balances_parse d accounts"
  shows "seed_accounts d (was_ethState (was s)) accounts w =
      Returns (w\<lparr>heap := (heap w)(was_ethState (was s) :=
                          seeded_content d (heap w (was_ethState (was s))) accounts),
                calls := calls w @ seeding_calls d (was_ethState (was s)) accounts\<rparr>) \<and>
    CreateAccounts d s accounts w =
      (case Commit d s
              (w\<lparr>heap := (heap w)(was_ethState (was s) :=
                          seeded_content d (heap w (was_ethState (was s))) accounts),
                calls := calls w @ seeding_calls d (was_ethState (was s)) accounts\<rparr>) of
         ((root, err), s1, w2) \<Rightarrow> Returns (err, s1, w2))"
  by (simp add: CreateAccounts_def seed_accounts_world [OF assms])

theorem CreateAccounts_seeds_then_commits_witness:
  "balances_parse (demo no_faults) accounts_ok \<and>
   (case CreateAccounts (demo no_faults) state0 accounts_ok world0 of
      Panic w \<Rightarrow> False
    | Returns (e, s, w) \<Rightarrow>
        e = None \<and>
        calls w =
          [SdbAddBalance 1 (bytes_of_string ''a1'') 100,
           SdbSetCode 1 (bytes_of_string ''a1'') (bytes_of_string ''60''),
           SdbSetState 1 (bytes_of_string ''a1'') (bytes_of_string ''01'') (bytes_of_string ''ff''),
           SdbAddBalance 1 (bytes_of_string ''b2'') 7,
           SdbSetCode 1 (bytes_of_string ''b2'') [],
           WasCommit, SdbReset 0 (root_of 127), WasReset (root_of 127), PoolReset (root_of 127)])"
proof -
  let ?d = "demo no_faults"
  have h: "balances_parse ?d accounts_ok"
    by (simp add: accounts_simps demo_def)
  have r: "was_ethState (was state0) = 1" by (simp add: state0_def)
  have c: "seeded_content ?d (heap world0 1) accounts_ok = 127"
    by (simp add: seeded_content_def account_content_def accounts_simps demo_def world0_def)
  have k: "seeding_calls ?d 1 accounts_ok =
          [SdbAddBalance 1 (bytes_of_string ''a1'') 100,
           SdbSetCode 1 (bytes_of_string ''a1'') (bytes_of_string ''60''),
           SdbSetState 1 (bytes_of_string ''a1'') (bytes_of_string ''01'') (bytes_of_string ''ff''),
           SdbAddBalance 1 (bytes_of_string ''b2'') 7,
           SdbSetCode 1 (bytes_of_string ''b2'') []]"
    by (simp add: seeding_calls_def account_calls_def accounts_simps demo_def bytes_of_string_def)
  define W where "W = world0\<lparr>heap := (heap world0)(1 := 127),
                calls := calls world0 @ seeding_calls ?d 1 accounts_ok\<rparr>"
  from CreateAccounts_seeds_then_commits [OF h, of state0 world0, unfolded r c, folded W_def]
  have eq: "CreateAccounts ?d state0 accounts_ok world0 =
      (case Commit ?d state0 W of ((root, err), s1, w2) \<Rightarrow> Returns (err, s1, w2))"
    by (rule conjunct2)
  have cm: "snd (fst (Commit ?d state0 W)) = None"
    by (simp add: W_def Commit_def step_defs demo_simps)
  have cl: "calls (snd (snd (Commit ?d state0 W))) =
      seeding_calls ?d 1 accounts_ok @
        [WasCommit, SdbReset 0 (root_of 127), WasReset (root_of 127), PoolReset (root_of 127)]"
    by (simp add: W_def Commit_def step_defs demo_simps)
  obtain root err s1 w2 where co: "Commit ?d state0 W = ((root, err), s1, w2)"
    by (metis prod.exhaust)
  from cm cl have "err = None" and "calls w2 = seeding_calls ?d 1 accounts_ok @
        [WasCommit, SdbReset 0 (root_of 127), WasReset (root_of 127), PoolReset (root_of 127)]"
    by (simp_all add: co)
  then show ?thesis
    using h k by (simp add: eq co)
qed


text \<open>
  C9 as stated fails for an account map with a balance that does not parse:
  \<open>CreateAccounts\<close> panics before anything is seeded, makes no call and so does not
  call \<open>Commit\<close>, and returns nothing.
\<close>

theorem CreateAccounts_every_map_counterexample:
  "CreateAccounts (demo no_faults) state0 accounts_bad world0 = Panic world0"
  by (simp add: CreateAccounts_def accounts_simps demo_def)


text \<open>
  C10. An account map with a balance that \<open>ParseBig256\<close> rejects makes
  \<open>CreateAccounts\<close> panic (in \<open>MustParseBig256\<close>): it does not return, so no error is
  reported to the caller.
\<close>

theorem CreateAccounts_panics:
  assumes "\<not> balances_parse d accounts"
  shows "\<exists>w'. CreateAccounts d s accounts w = Panic w'"
  using seed_accounts_panics [OF assms, of "was_ethState (was s)" w]
  by (auto simp: CreateAccounts_def)

theorem CreateAccounts_panics_witness:
  "\<not> balances_parse (demo no_faults) accounts_bad2 \<and>
   (\<exists>w'. CreateAccounts (demo no_faults) state0 accounts_bad2 world0 = Panic w')"
proof -
  have h: "\<not> balances_parse (demo no_faults) accounts_bad2"
    by (simp add: accounts_simps demo_def)
  from CreateAccounts_panics [OF h] h show ?thesis by blast
qed



end
